theory Spec2Isabelle
  imports Complex_Main
begin

section \<open>Python exceptions as values\<close>

text \<open>
  Every exception the modelled code can raise is a value of \<open>py_error\<close>; a function that
  can raise returns \<open>py_error + 'a\<close> with \<open>Inl\<close> for the exception.  Python floats are
  modelled as \<open>real\<close> (rounding is not modelled), Python ints as \<open>int\<close>.
\<close>

datatype py_error =
    AttributeError | NameError | TypeError | ValueError
  | IndexError | KeyError | UnboundLocalError

section \<open>Identity matcher (face\_processor.py)\<close>

text \<open>One entry of \<open>known_embs_data\<close>: a dict with keys user\_id, codigo\_usuario, embedding.\<close>

record user_data =
  user_id :: int
  codigo_usuario :: string
  embedding :: "real list option"

text \<open>\<open>np.dot\<close> on two one-dimensional arrays: shapes that differ raise ValueError.\<close>

definition np_dot :: "real list \<Rightarrow> real list \<Rightarrow> py_error + real" where
  "np_dot a b =
     (if length a = length b then Inr (\<Sum>(x, y) \<leftarrow> zip a b. x * y) else Inl ValueError)"

definition compare_embeddings :: "real list option \<Rightarrow> real list option \<Rightarrow> py_error + real" where
  "compare_embeddings emb1 emb2 =
     (case emb1 of None \<Rightarrow> Inr 0
      | Some a \<Rightarrow> (case emb2 of None \<Rightarrow> Inr 0 | Some b \<Rightarrow> np_dot a b))"

text \<open>
  The \<open>for\<close> loop of \<open>find_match\<close>, with the pair (best\_match\_user\_data,
  highest\_similarity) as the loop state.
\<close>

fun find_match_loop ::
  "real list option \<Rightarrow> real \<Rightarrow> user_data list \<Rightarrow> user_data option \<times> real
     \<Rightarrow> py_error + (user_data option \<times> real)" where
  "find_match_loop q threshold [] acc = Inr acc"
| "find_match_loop q threshold (u # us) (best_match_user_data, highest_similarity) =
     (case compare_embeddings q (embedding u) of
        Inl e \<Rightarrow> Inl e
      | Inr similarity \<Rightarrow>
          (if similarity > highest_similarity
           then find_match_loop q threshold us
                  (if similarity \<ge> threshold then Some u else best_match_user_data, similarity)
           else find_match_loop q threshold us (best_match_user_data, highest_similarity)))"

definition find_match ::
  "real list option \<Rightarrow> user_data list \<Rightarrow> real \<Rightarrow> py_error + (user_data option \<times> real)" where
  "find_match query_emb known_embs_data threshold =
     (if query_emb = None \<or> known_embs_data = [] then Inr (None, 0)
      else find_match_loop query_emb threshold known_embs_data (None, - 1))"

text \<open>
  The similarity of one candidate as a plain number (used to state the matcher's
  contract): the dot product, and 0 for a candidate whose embedding is None.
\<close>

definition similarity_of :: "real list \<Rightarrow> user_data \<Rightarrow> real" where
  "similarity_of q u =
     (case embedding u of None \<Rightarrow> 0 | Some b \<Rightarrow> (\<Sum>(x, y) \<leftarrow> zip q b. x * y))"

definition same_shape :: "real list \<Rightarrow> user_data \<Rightarrow> bool" where
  "same_shape q u = (case embedding u of None \<Rightarrow> True | Some b \<Rightarrow> length q = length b)"

definition true_max_similarity :: "real list \<Rightarrow> user_data list \<Rightarrow> real" where
  "true_max_similarity q known = Max (similarity_of q ` set known)"

section \<open>Active-pause handler (fatigue\_processor.py, class PausaActivaHandler)\<close>

text \<open>
  Wall-clock time is an explicit argument: \<open>now\<close> is the value \<open>time.time()\<close> returns
  during the call.  The successive clock reads of one call (in \<open>update\<close> and in the
  \<open>reset\<close> it may invoke) are taken to return the same value.
\<close>

record pausa_state =
  work_duration :: real
  reset_threshold :: real
  elapsed_work_time :: real
  is_paused :: bool
  pause_start_time :: "real option"
  last_update_time :: real
  last_pausa_activa_time :: "real option"

definition pausa_init :: "real \<Rightarrow> real \<Rightarrow> real \<Rightarrow> pausa_state" where
  "pausa_init work_duration_secs break_reset_threshold_secs now =
     \<lparr>work_duration = work_duration_secs, reset_threshold = break_reset_threshold_secs,
      elapsed_work_time = 0, is_paused = True, pause_start_time = None,
      last_update_time = now, last_pausa_activa_time = None\<rparr>"

definition pausa_reset :: "real \<Rightarrow> pausa_state \<Rightarrow> pausa_state" where
  "pausa_reset now st =
     st\<lparr>elapsed_work_time := 0, is_paused := True, pause_start_time := None,
        last_update_time := now, last_pausa_activa_time := Some now\<rparr>"

text \<open>Python's \<open>int(x)\<close> on a float truncates toward zero.\<close>

definition py_int :: "real \<Rightarrow> int" where
  "py_int x = (if 0 \<le> x then \<lfloor>x\<rfloor> else \<lceil>x\<rceil>)"

text \<open>
  \<open>PausaActivaHandler.update\<close>: returns (should\_alert, seconds remaining) and the new
  state.  The test \<open>self.pause_start_time and ...\<close> is Python truthiness: None and 0.0
  both count as false.
\<close>

definition pausa_update ::
  "real \<Rightarrow> bool \<Rightarrow> bool \<Rightarrow> pausa_state \<Rightarrow> (bool \<times> int) \<times> pausa_state" where
  "pausa_update now face_detected pose_detected st =
     (let delta_time = now - last_update_time st;
          st1 = st\<lparr>last_update_time := now\<rparr>;
          is_user_present = face_detected \<or> pose_detected;
          (should_alert, st2) =
            (if is_user_present then
               let st_a = (if is_paused st1
                           then st1\<lparr>is_paused := False, pause_start_time := None\<rparr>
                           else st1);
                   st_b = st_a\<lparr>elapsed_work_time := elapsed_work_time st_a + delta_time\<rparr>
               in if elapsed_work_time st_b \<ge> work_duration st_b
                     \<and> (case last_pausa_activa_time st_b of
                            None \<Rightarrow> True
                          | Some lp \<Rightarrow> now - lp > work_duration st_b * (95 / 100))
                  then (True, pausa_reset now st_b)
                  else (False, st_b)
             else
               let st_a = (if \<not> is_paused st1
                           then st1\<lparr>is_paused := True, pause_start_time := Some now\<rparr>
                           else st1)
               in if (case pause_start_time st_a of
                        None \<Rightarrow> False
                      | Some ps \<Rightarrow> ps \<noteq> 0 \<and> now - ps > reset_threshold st_a)
                  then (False, pausa_reset now st_a)
                  else (False, st_a));
          time_remaining = work_duration st2 - elapsed_work_time st2
      in ((should_alert, py_int (max 0 time_remaining)), st2))"

text \<open>Feeding a handler a sequence of updates \<open>(now, face_detected, pose_detected)\<close>.\<close>

fun pausa_run ::
  "(real \<times> bool \<times> bool) list \<Rightarrow> pausa_state \<Rightarrow> (bool \<times> int) list \<times> pausa_state" where
  "pausa_run [] st = ([], st)"
| "pausa_run ((now, f, p) # rest) st =
     (let (out, st1) = pausa_update now f p st;
          (outs, st2) = pausa_run rest st1
      in (out # outs, st2))"

text \<open>
  A work cycle that started at time \<open>c\<close>: the handler was created or last reset at \<open>c\<close>
  and has accumulated all the time since (the user was present on every update of the
  cycle so far).
\<close>

definition cycle_started_at :: "real \<Rightarrow> pausa_state \<Rightarrow> bool" where
  "cycle_started_at c st =
     (elapsed_work_time st = last_update_time st - c
      \<and> (last_pausa_activa_time st = None \<or> last_pausa_activa_time st = Some c))"

text \<open>
  What "exactly once per work cycle" means for a run of updates at times \<open>ts\<close>, all with
  the user present, in a cycle that started at \<open>c\<close>: an update alerts exactly when at
  least \<open>wd\<close> seconds have passed since the cycle started, and the next cycle starts at
  that update.
\<close>

fun alerts_once_per_cycle :: "real \<Rightarrow> real \<Rightarrow> real list \<Rightarrow> bool list" where
  "alerts_once_per_cycle wd c [] = []"
| "alerts_once_per_cycle wd c (t # ts) =
     (if t - c \<ge> wd then True # alerts_once_per_cycle wd t ts
      else False # alerts_once_per_cycle wd c ts)"

definition user_present :: "(real \<times> bool \<times> bool) \<Rightarrow> bool" where
  "user_present u = (fst (snd u) \<or> snd (snd u))"

definition absent_updates :: "real list \<Rightarrow> (real \<times> bool \<times> bool) list" where
  "absent_updates ts = map (\<lambda>t. (t, False, False)) ts"

text \<open>
  The handler during an absence that began at \<open>a1\<close>: paused, and either still waiting
  since \<open>a1\<close> or already reset.
\<close>

definition absence_inv :: "real \<Rightarrow> real \<Rightarrow> pausa_state \<Rightarrow> bool" where
  "absence_inv a1 rt st =
     (is_paused st \<and> reset_threshold st = rt
      \<and> (pause_start_time st = Some a1
          \<or> (pause_start_time st = None \<and> elapsed_work_time st = 0)))"

section \<open>Nod detector (nod\_detector.py)\<close>

record nod_config =
  window_size :: nat
  min_frames_for_analysis :: nat
  y_angle_threshold :: real
  y_recovery_threshold :: real
  min_velocity_dps :: real
  max_velocity_dps :: real
  recovery_pattern_weight :: real
  cooldown_period_secs :: real
  consecutive_frames_threshold :: nat

definition default_nod_config :: nod_config where
  "default_nod_config =
     \<lparr>window_size = 20, min_frames_for_analysis = 10, y_angle_threshold = 12,
      y_recovery_threshold = 6, min_velocity_dps = 100, max_velocity_dps = 800,
      recovery_pattern_weight = 15 / 10, cooldown_period_secs = 5,
      consecutive_frames_threshold = 2\<rparr>"

record nod_state =
  angle_y_history :: "real list"
  timestamp_history :: "real list"
  last_detection_time :: real
  risk_score :: real

definition nod_reset :: nod_state where
  "nod_reset = \<lparr>angle_y_history = [], timestamp_history = [],
                 last_detection_time = 0, risk_score = 0\<rparr>"

text \<open>\<open>np.diff\<close>: the differences of adjacent entries.\<close>

definition np_diff :: "real list \<Rightarrow> real list" where
  "np_diff xs = map (\<lambda>(a, b). b - a) (zip xs (tl xs))"

definition large_dip :: "nod_config \<Rightarrow> real list \<Rightarrow> real list \<Rightarrow> bool" where
  "large_dip cfg delta_angles velocities_dps =
     list_ex (\<lambda>(d, v). d > y_angle_threshold cfg
                        \<and> v > min_velocity_dps cfg \<and> v < max_velocity_dps cfg)
       (zip delta_angles velocities_dps)"

definition recovery_pattern :: "nod_config \<Rightarrow> real list \<Rightarrow> bool" where
  "recovery_pattern cfg delta_angles =
     list_ex (\<lambda>(d1, d2). d1 * d2 < 0 \<and> \<bar>d1\<bar> > y_recovery_threshold cfg
                          \<and> \<bar>d2\<bar> > y_recovery_threshold cfg)
       (zip delta_angles (tl delta_angles))"

definition detect_nodding :: "nod_config \<Rightarrow> real \<Rightarrow> nod_state \<Rightarrow> (bool \<times> real) \<times> nod_state" where
  "detect_nodding cfg now st =
     (let delta_angles = np_diff (angle_y_history st);
          delta_times = map (\<lambda>dt. max (1 / 1000000) dt) (np_diff (timestamp_history st));
          velocities_dps = map (\<lambda>(da, dt). \<bar>da / dt\<bar>) (zip delta_angles delta_times);
          (is_nodding, st1) =
            (if large_dip cfg delta_angles velocities_dps \<and> recovery_pattern cfg delta_angles
                \<and> now - last_detection_time st > cooldown_period_secs cfg
             then (True, st\<lparr>last_detection_time := now,
                             risk_score := risk_score st + recovery_pattern_weight cfg\<rparr>)
             else (False, st));
          st2 = st1\<lparr>risk_score := min 10 (risk_score st1)\<rparr>
      in ((is_nodding, risk_score st2), st2))"

text \<open>
  \<open>NodDetector.update\<close>.  The argument is \<open>None\<close> for Python's None and for a
  non-finite float (both are rejected by the first test).
\<close>

definition nod_update ::
  "nod_config \<Rightarrow> real \<Rightarrow> real option \<Rightarrow> nod_state \<Rightarrow> (bool \<times> real) \<times> nod_state" where
  "nod_update cfg now angle_y st =
     (case angle_y of
        None \<Rightarrow> ((False, risk_score st), st)
      | Some a \<Rightarrow>
          (let ah = angle_y_history st @ [a];
               th = timestamp_history st @ [now];
               over = (length ah > window_size cfg);
               st1 = st\<lparr>angle_y_history := (if over then tl ah else ah),
                        timestamp_history := (if over then tl th else th),
                        risk_score := max 0 (risk_score st - 1 / 100)\<rparr>
           in if length (angle_y_history st1) < min_frames_for_analysis cfg
              then ((False, risk_score st1), st1)
              else detect_nodding cfg now st1))"

text \<open>Feeding a detector a sequence of samples \<open>(now, angle)\<close>; the is\_nodding outputs.\<close>

fun nod_run :: "nod_config \<Rightarrow> (real \<times> real) list \<Rightarrow> nod_state \<Rightarrow> bool list \<times> nod_state" where
  "nod_run cfg [] st = ([], st)"
| "nod_run cfg ((now, a) # rest) st =
     (let (out, st1) = nod_update cfg now (Some a) st;
          (outs, st2) = nod_run cfg rest st1
      in (fst out # outs, st2))"

text \<open>The synthetic window of the specification, sampled every 30 ms from \<open>t0\<close>.\<close>

definition nod_test_angles :: "real list" where
  "nod_test_angles = [0, 0, 0, 0, 0, 0, 0, 0, 0, 0, 14, 14, - 8, - 8, 0, 0, 0, 0, 0, 0]"

definition sampled_at :: "real \<Rightarrow> real \<Rightarrow> real list \<Rightarrow> (real \<times> real) list" where
  "sampled_at t0 dt angles = map (\<lambda>(i, a). (t0 + dt * real i, a)) (enumerate 0 angles)"

section \<open>Facial metrics (fatigue\_processor.py, \_calculate\_facial\_metrics)\<close>

text \<open>
  The metric code divides numpy float64 scalars.  A float64 division by zero does not
  raise: it yields inf, -inf or nan (with a warning).  \<open>npfloat\<close> keeps these results
  apart from the finite values; HOL's own \<open>x / 0 = 0\<close> is never relied on.
\<close>

datatype npfloat = Finite real | PosInf | NegInf | NaN

definition np_divide :: "real \<Rightarrow> real \<Rightarrow> npfloat" where
  "np_divide a b =
     (if b \<noteq> 0 then Finite (a / b)
      else if a > 0 then PosInf else if a < 0 then NegInf else NaN)"

definition npfloat_div :: "npfloat \<Rightarrow> real \<Rightarrow> npfloat" where
  "npfloat_div x b =
     (case x of
        Finite a \<Rightarrow> np_divide a b
      | PosInf \<Rightarrow> (if b < 0 then NegInf else PosInf)
      | NegInf \<Rightarrow> (if b < 0 then PosInf else NegInf)
      | NaN \<Rightarrow> NaN)"

text \<open>\<open>x > r\<close> for a float64 \<open>x\<close>: every comparison with nan is False.\<close>

definition npfloat_gt :: "npfloat \<Rightarrow> real \<Rightarrow> bool" where
  "npfloat_gt x r =
     (case x of Finite a \<Rightarrow> a > r | PosInf \<Rightarrow> True | NegInf \<Rightarrow> False | NaN \<Rightarrow> False)"

type_synonym point = "real \<times> real"

definition distance :: "point \<Rightarrow> point \<Rightarrow> real" where
  "distance p1 p2 = sqrt ((fst p1 - fst p2)\<^sup>2 + (snd p1 - snd p2)\<^sup>2)"

text \<open>\<open>arr[[i, j, ...]]\<close>: an index past the end raises IndexError.\<close>

definition np_take :: "'a list \<Rightarrow> nat list \<Rightarrow> py_error + 'a list" where
  "np_take xs idx =
     (if list_all (\<lambda>i. i < length xs) idx then Inr (map (\<lambda>i. xs ! i) idx)
      else Inl IndexError)"

definition eye_aspect_ratio :: "point list \<Rightarrow> real" where
  "eye_aspect_ratio eye_points =
     (let A = distance (eye_points ! 1) (eye_points ! 5);
          B = distance (eye_points ! 2) (eye_points ! 4);
          C = distance (eye_points ! 0) (eye_points ! 3)
      in if C > 1 / 1000000 then (A + B) / (2 * C) else 0)"

definition calculate_circularity :: "point list \<Rightarrow> real" where
  "calculate_circularity iris =
     (let horizontal_radius = distance (iris ! 2) (iris ! 4) / 2;
          vertical_radius = distance (iris ! 1) (iris ! 3) / 2
      in if horizontal_radius < 1 / 1000000 \<or> vertical_radius < 1 / 1000000 then 0
         else
           let area = pi * horizontal_radius * vertical_radius;
               a = horizontal_radius; b = vertical_radius;
               perimeter = pi * (3 * (a + b) - sqrt ((3 * a + b) * (a + 3 * b)))
           in if perimeter < 1 / 1000000 then 0
              else max 0 (min 1 ((4 * pi * area) / perimeter\<^sup>2)))"

text \<open>
  The calibration dict.  Only the two keys the modelled code reads are kept; a key that
  is absent is \<open>None\<close>.
\<close>

record calibration =
  cal_ear_mean :: "real option"
  cal_mar_mean :: "real option"

record metrics =
  ear :: real
  mar :: npfloat
  puc :: real
  moe :: npfloat
  landmarks_np :: "point list"

definition compute_puc :: "point list \<Rightarrow> real" where
  "compute_puc lm_np =
     (case np_take lm_np [473, 474, 475, 476, 477] of
        Inl e \<Rightarrow> 0
      | Inr right_iris_pts \<Rightarrow>
          (case np_take lm_np [468, 469, 470, 471, 472] of
             Inl e \<Rightarrow> 0
           | Inr left_iris_pts \<Rightarrow>
               (let puc_right = calculate_circularity right_iris_pts;
                    puc_left = calculate_circularity left_iris_pts
                in if puc_right > 0 \<and> puc_left > 0 then (puc_right + puc_left) / 2
                   else max puc_right puc_left)))"

definition compute_moe :: "real \<Rightarrow> npfloat \<Rightarrow> calibration option \<Rightarrow> npfloat" where
  "compute_moe e m calibration_data =
     (case calibration_data of
        None \<Rightarrow> (if e > 1 / 1000000 then npfloat_div m e else m)
      | Some cal \<Rightarrow>
          (case (cal_ear_mean cal, cal_mar_mean cal) of
             (Some cal_ear, Some cal_mar) \<Rightarrow>
               (let ear_norm = (if cal_ear > 1 / 1000000 then e / cal_ear else 1);
                    mar_norm = (if cal_mar > 1 / 1000000 then npfloat_div m cal_mar
                                else Finite 1)
                in if ear_norm > 1 / 1000000 then npfloat_div mar_norm ear_norm
                   else mar_norm)
           | _ \<Rightarrow> (if e > 1 / 1000000 then npfloat_div m e else m)))"

text \<open>
  \<open>_calculate_facial_metrics\<close>.  \<open>lms\<close> are the normalised landmarks \<open>(x, y)\<close>,
  \<open>frame_shape\<close> is \<open>(h, w)\<close>.  Only the iris lookup is inside a \<open>try\<close>; an IndexError
  of the eye or mouth lookups propagates.
\<close>

definition calculate_facial_metrics ::
  "point list \<Rightarrow> int \<times> int \<Rightarrow> calibration option \<Rightarrow> py_error + metrics" where
  "calculate_facial_metrics lms frame_shape calibration_data =
     (let h = real_of_int (fst frame_shape); w = real_of_int (snd frame_shape);
          lm_np = map (\<lambda>lm. (fst lm * w, snd lm * h)) lms
      in case np_take lm_np [362, 385, 387, 263, 373, 380] of
           Inl e \<Rightarrow> Inl e
         | Inr left_eye_pts \<Rightarrow>
        (case np_take lm_np [33, 160, 158, 133, 153, 144] of
           Inl e \<Rightarrow> Inl e
         | Inr right_eye_pts \<Rightarrow>
        (case np_take lm_np [61, 291, 0, 17] of
           Inl e \<Rightarrow> Inl e
         | Inr mouth_pts \<Rightarrow>
             (let e = (eye_aspect_ratio left_eye_pts + eye_aspect_ratio right_eye_pts) / 2;
                  m = np_divide (distance (mouth_pts ! 0) (mouth_pts ! 1))
                        (distance (mouth_pts ! 2) (mouth_pts ! 3))
              in Inr \<lparr>ear = e, mar = m, puc = compute_puc lm_np,
                      moe = compute_moe e m calibration_data, landmarks_np = lm_np\<rparr>))))"

section \<open>Fatigue event detector (fatigue\_processor.py, class FatigueProcessor)\<close>

text \<open>
  The thresholds dict \<open>config['fatigue_detection_thresholds']\<close>, read with
  \<open>.get(key, default)\<close>: an absent key is \<open>None\<close> and \<open>dict_get\<close> supplies the default.
\<close>

record fatigue_thresholds =
  DISTRACTION_FRAMES_THRESHOLD :: "int option"
  YAWN_MAR_FACTOR :: "real option"
  YAWN_FRAMES_THRESHOLD :: "int option"
  DROWSINESS_EAR_FACTOR :: "real option"
  MAX_ALERT_EYES_CLOSED_FRAMES :: "int option"
  DROWSINESS_EYES_CLOSED_FRAMES :: "int option"
  EYE_RUBBING_FRAMES :: "int option"

definition dict_get :: "'a option \<Rightarrow> 'a \<Rightarrow> 'a" where
  "dict_get v dflt = (case v of None \<Rightarrow> dflt | Some x \<Rightarrow> x)"

definition no_thresholds :: fatigue_thresholds where
  "no_thresholds =
     \<lparr>DISTRACTION_FRAMES_THRESHOLD = None, YAWN_MAR_FACTOR = None,
      YAWN_FRAMES_THRESHOLD = None, DROWSINESS_EAR_FACTOR = None,
      MAX_ALERT_EYES_CLOSED_FRAMES = None, DROWSINESS_EYES_CLOSED_FRAMES = None,
      EYE_RUBBING_FRAMES = None\<rparr>"

text \<open>
  The processor object: its configuration, its two sub-detectors, whether the optional
  LSTM classifier was loaded, the calibration and the \<open>state\<close> dict.
\<close>

record fatigue_processor =
  thresholds :: fatigue_thresholds
  nod_detector_config :: nod_config
  nod_detector :: nod_state
  pausa_handler :: pausa_state
  lstm_classifier_loaded :: bool
  calibration_data :: "calibration option"
  yawn_frames :: int
  closed_eyes_frames :: int
  stretching_frames :: int
  eye_rubbing_frames :: int
  distraction_frames :: int
  last_yawn_time :: real
  last_stretching_time :: real
  last_eye_rub_time :: real
  last_distraction_alert_time :: real
  last_despierta_alert_time :: real

definition reset_state :: "real \<Rightarrow> fatigue_processor \<Rightarrow> fatigue_processor" where
  "reset_state now fp =
     fp\<lparr>yawn_frames := 0, closed_eyes_frames := 0, stretching_frames := 0,
        eye_rubbing_frames := 0, distraction_frames := 0,
        last_yawn_time := 0, last_stretching_time := 0, last_eye_rub_time := 0,
        last_distraction_alert_time := 0, last_despierta_alert_time := 0,
        nod_detector := nod_reset,
        pausa_handler := pausa_reset now (pausa_handler fp)\<rparr>"

definition set_calibration :: "real \<Rightarrow> calibration \<Rightarrow> fatigue_processor \<Rightarrow> fatigue_processor" where
  "set_calibration now cal fp = reset_state now (fp\<lparr>calibration_data := Some cal\<rparr>)"

text \<open>\<open>FatigueProcessor.__init__\<close> for a given configuration, at time \<open>now\<close>.\<close>

definition fatigue_processor_init ::
  "fatigue_thresholds \<Rightarrow> nod_config \<Rightarrow> real \<Rightarrow> real \<Rightarrow> bool \<Rightarrow> real \<Rightarrow> fatigue_processor" where
  "fatigue_processor_init th ncfg work_duration_seconds reset_threshold_seconds lstm now =
     reset_state now
       \<lparr>thresholds = th, nod_detector_config = ncfg, nod_detector = nod_reset,
        pausa_handler = pausa_init work_duration_seconds reset_threshold_seconds now,
        lstm_classifier_loaded = lstm, calibration_data = None,
        yawn_frames = 0, closed_eyes_frames = 0, stretching_frames = 0,
        eye_rubbing_frames = 0, distraction_frames = 0,
        last_yawn_time = 0, last_stretching_time = 0, last_eye_rub_time = 0,
        last_distraction_alert_time = 0, last_despierta_alert_time = 0\<rparr>"

text \<open>
  What one call of \<open>process_frame_for_inference\<close> receives.  The results of the
  collaborators it consults are part of the observation: the clock (one reading for
  the whole call, sub-detectors included), the face-mesh
  landmarks (\<open>None\<close> when \<open>face_results\<close> is empty), whether body-pose landmarks are
  present, what the LSTM classifier's \<open>update\<close> returns, the yaw angle returned by
  \<open>calculate_head_angle\<close> and the code returned by \<open>detect_eye_rubbing\<close> (both
  functions catch every exception themselves).
\<close>

record frame_obs =
  obs_now :: real
  frame_shape :: "int \<times> int"
  face_results :: "point list option"
  pose_landmarks_present :: bool
  lstm_prediction :: "int option"
  head_angle_y :: "real option"
  rub_type :: int

text \<open>The block run when no face is detected (distraction counter).\<close>

definition distraction_step ::
  "real \<Rightarrow> string list \<Rightarrow> fatigue_processor \<Rightarrow> string list \<times> fatigue_processor" where
  "distraction_step now detected_events fp =
     (let fp1 = fp\<lparr>distraction_frames := distraction_frames fp + 1\<rparr>;
          threshold = dict_get (DISTRACTION_FRAMES_THRESHOLD (thresholds fp1)) 30
      in if distraction_frames fp1 > threshold \<and> now - last_distraction_alert_time fp1 > 5
         then (detected_events @ [''Distraccion''],
               fp1\<lparr>last_distraction_alert_time := now\<rparr>)
         else (detected_events, fp1))"

text \<open>The yawn block; \<open>cal_mar\<close> is \<open>cal_data['cal_mar_mean']\<close>.\<close>

definition yawn_step ::
  "real \<Rightarrow> npfloat \<Rightarrow> real \<Rightarrow> string list \<Rightarrow> fatigue_processor
     \<Rightarrow> string list \<times> fatigue_processor" where
  "yawn_step now m cal_mar detected_events fp =
     (if npfloat_gt m (cal_mar * dict_get (YAWN_MAR_FACTOR (thresholds fp)) (18 / 10)) then
        (let fp1 = fp\<lparr>yawn_frames := yawn_frames fp + 1\<rparr>
         in if yawn_frames fp1 > dict_get (YAWN_FRAMES_THRESHOLD (thresholds fp1)) 8
               \<and> now - last_yawn_time fp1 > 10
            then (detected_events @ [''Bostezar''],
                  fp1\<lparr>last_yawn_time := now, yawn_frames := 0\<rparr>)
            else (detected_events, fp1))
      else (detected_events, fp\<lparr>yawn_frames := 0\<rparr>))"

text \<open>The eyes-closed block; \<open>cal_ear\<close> is \<open>cal_data['cal_ear_mean']\<close>.\<close>

definition eyes_closed_step ::
  "real \<Rightarrow> real \<Rightarrow> real \<Rightarrow> string list \<Rightarrow> fatigue_processor
     \<Rightarrow> string list \<times> fatigue_processor" where
  "eyes_closed_step now e cal_ear detected_events fp =
     (let ear_threshold = cal_ear * dict_get (DROWSINESS_EAR_FACTOR (thresholds fp)) (75 / 100)
      in if e < ear_threshold then
           (let fp1 = fp\<lparr>closed_eyes_frames := closed_eyes_frames fp + 1\<rparr>
            in if closed_eyes_frames fp1
                    > dict_get (MAX_ALERT_EYES_CLOSED_FRAMES (thresholds fp1)) 60
               then (if now - last_despierta_alert_time fp1 > 5
                     then (detected_events @ [''Despierta''],
                           fp1\<lparr>last_despierta_alert_time := now\<rparr>)
                     else (detected_events, fp1))
               else if closed_eyes_frames fp1
                         > dict_get (DROWSINESS_EYES_CLOSED_FRAMES (thresholds fp1)) 20
               then (detected_events @ [''Somnolencia''], fp1)
               else (detected_events, fp1))
         else (detected_events, fp\<lparr>closed_eyes_frames := 0\<rparr>))"

text \<open>The nod block: \<open>self.nod_detector.update(angle_y or 0.0)\<close>.\<close>

definition nod_step ::
  "real \<Rightarrow> real option \<Rightarrow> string list \<Rightarrow> fatigue_processor
     \<Rightarrow> string list \<times> fatigue_processor" where
  "nod_step now angle_y detected_events fp =
     (let a = (case angle_y of None \<Rightarrow> 0 | Some x \<Rightarrow> x);
          r = nod_update (nod_detector_config fp) now (Some a) (nod_detector fp);
          fp1 = fp\<lparr>nod_detector := snd r\<rparr>
      in if fst (fst r) then (detected_events @ [''Cabeceo''], fp1)
         else (detected_events, fp1))"

definition eye_rub_step ::
  "real \<Rightarrow> int \<Rightarrow> string list \<Rightarrow> fatigue_processor \<Rightarrow> string list \<times> fatigue_processor" where
  "eye_rub_step now rub detected_events fp =
     (if rub > 0 then
        (let fp1 = fp\<lparr>eye_rubbing_frames := eye_rubbing_frames fp + 1\<rparr>
         in if eye_rubbing_frames fp1 > dict_get (EYE_RUBBING_FRAMES (thresholds fp1)) 15
               \<and> now - last_eye_rub_time fp1 > 10
            then (detected_events @ [''Frotar Ojos''], fp1\<lparr>last_eye_rub_time := now\<rparr>)
            else (detected_events, fp1))
      else (detected_events, fp\<lparr>eye_rubbing_frames := 0\<rparr>))"

text \<open>
  The part of \<open>process_frame_for_inference\<close> after the calibration test.  Indexing the
  calibration dict with a key it lacks raises KeyError at that point.
\<close>

definition calibrated_steps ::
  "frame_obs \<Rightarrow> metrics \<Rightarrow> calibration \<Rightarrow> string list \<Rightarrow> fatigue_processor
     \<Rightarrow> (py_error + string list) \<times> fatigue_processor" where
  "calibrated_steps obs m cal_data detected_events fp =
     (let current_time = obs_now obs
      in case cal_mar_mean cal_data of
           None \<Rightarrow> (Inl KeyError, fp)
         | Some cal_mar \<Rightarrow>
             (let (ev1, fp1) = yawn_step current_time (mar m) cal_mar detected_events fp
              in case cal_ear_mean cal_data of
                   None \<Rightarrow> (Inl KeyError, fp1)
                 | Some cal_ear \<Rightarrow>
                     (let (ev2, fp2) = eyes_closed_step current_time (ear m) cal_ear ev1 fp1;
                          (ev3, fp3) = nod_step current_time (head_angle_y obs) ev2 fp2;
                          (ev4, fp4) = eye_rub_step current_time (rub_type obs) ev3 fp3
                      in (Inr (remdups ev4), fp4))))"

text \<open>
  \<open>process_frame_for_inference\<close>: the returned event list (or the exception raised) and
  the processor afterwards.  \<open>list(set(detected_events))\<close> is modelled by \<open>remdups\<close>
  (Python leaves the order open; only membership is used below).  In the LSTM block the
  test \<open>lstm_prediction == 1 and current_time - ... > 30\<close> reads the local variable
  \<open>current_time\<close>, which is assigned only further down: when the prediction is 1 the
  read raises UnboundLocalError.  The overlay bundle (display only) is not modelled.
\<close>

definition process_frame_for_inference ::
  "frame_obs \<Rightarrow> fatigue_processor \<Rightarrow> (py_error + string list) \<times> fatigue_processor" where
  "process_frame_for_inference obs fp =
     (let face_detected = (face_results obs \<noteq> None);
          pose_detected = pose_landmarks_present obs;
          pu = pausa_update (obs_now obs) face_detected pose_detected (pausa_handler fp);
          fp1 = fp\<lparr>pausa_handler := snd pu\<rparr>;
          detected_events = (if fst (fst pu) then [''Pausa Activa''] else [])
      in case face_results obs of
           None \<Rightarrow>
             (let (ev, fp2) = distraction_step (obs_now obs) detected_events fp1
              in (Inr (remdups ev), fp2))
         | Some lms \<Rightarrow>
             (let fp2 = fp1\<lparr>distraction_frames := 0\<rparr>
              in case calculate_facial_metrics lms (frame_shape obs) (calibration_data fp2) of
                   Inl e \<Rightarrow> (Inl e, fp2)
                 | Inr m \<Rightarrow>
                     (if lstm_classifier_loaded fp2 \<and> lstm_prediction obs = Some 1
                      then (Inl UnboundLocalError, fp2)
                      else case calibration_data fp2 of
                             None \<Rightarrow> (Inr [''AWAITING_CALIBRATION''], fp2)
                           | Some cal_data \<Rightarrow>
                               calibrated_steps obs m cal_data detected_events fp2)))"

text \<open>Consecutive frames; each call's result is recorded, the processor is carried on.\<close>

fun fatigue_run ::
  "frame_obs list \<Rightarrow> fatigue_processor
     \<Rightarrow> (py_error + string list) list \<times> fatigue_processor" where
  "fatigue_run [] fp = ([], fp)"
| "fatigue_run (obs # rest) fp =
     (let (r, fp1) = process_frame_for_inference obs fp;
          (rs, fp2) = fatigue_run rest fp1
      in (r # rs, fp2))"

text \<open>The fields of the processor that the eyes-closed block reads or writes.\<close>

definition eyes_view ::
  "fatigue_processor \<Rightarrow> int \<times> real \<times> fatigue_thresholds \<times> calibration option \<times> bool" where
  "eyes_view fp = (closed_eyes_frames fp, last_despierta_alert_time fp, thresholds fp,
                   calibration_data fp, lstm_classifier_loaded fp)"

text \<open>
  Vocabulary for stating what a call returned: whether it returned at all, and whether
  the returned list holds a given event name.
\<close>

definition emits :: "string \<Rightarrow> py_error + string list \<Rightarrow> bool" where
  "emits name r = (case r of Inl e \<Rightarrow> False | Inr ev \<Rightarrow> name \<in> set ev)"

definition returned :: "py_error + string list \<Rightarrow> bool" where
  "returned r = (case r of Inl e \<Rightarrow> False | Inr ev \<Rightarrow> True)"

text \<open>What the eyes-closed block does, as the specification words it.\<close>

definition eyes_counter_after :: "fatigue_processor \<Rightarrow> real \<Rightarrow> real \<Rightarrow> int" where
  "eyes_counter_after fp e cal_ear =
     (if e < cal_ear * dict_get (DROWSINESS_EAR_FACTOR (thresholds fp)) (75 / 100)
      then closed_eyes_frames fp + 1 else 0)"

text \<open>The raw eyes-closed condition and the two configured frame thresholds.\<close>

definition ear_below :: "fatigue_processor \<Rightarrow> real \<Rightarrow> real \<Rightarrow> bool" where
  "ear_below fp e cal_ear =
     (e < cal_ear * dict_get (DROWSINESS_EAR_FACTOR (thresholds fp)) (75 / 100))"

definition max_alert_frames :: "fatigue_processor \<Rightarrow> int" where
  "max_alert_frames fp = dict_get (MAX_ALERT_EYES_CLOSED_FRAMES (thresholds fp)) 60"

definition drowsiness_frames :: "fatigue_processor \<Rightarrow> int" where
  "drowsiness_frames fp = dict_get (DROWSINESS_EYES_CLOSED_FRAMES (thresholds fp)) 20"

text \<open>
  A frame on which the eyes-closed condition holds: a face is detected, its metrics can
  be computed, the calibration has both means, the EAR is below the calibrated
  threshold, and the LSTM classifier (if loaded) does not predict 1.
\<close>

definition eyes_closed_obs :: "fatigue_processor \<Rightarrow> frame_obs \<Rightarrow> bool" where
  "eyes_closed_obs fp obs =
     (case face_results obs of
        None \<Rightarrow> False
      | Some lms \<Rightarrow>
          (case calculate_facial_metrics lms (frame_shape obs) (calibration_data fp) of
             Inl e \<Rightarrow> False
           | Inr m \<Rightarrow>
               (case calibration_data fp of
                  None \<Rightarrow> False
                | Some cal \<Rightarrow>
                    (case (cal_ear_mean cal, cal_mar_mean cal) of
                       (Some ce, Some cm) \<Rightarrow>
                         ear_below fp (ear m) ce
                         \<and> \<not> (lstm_classifier_loaded fp \<and> lstm_prediction obs = Some 1)
                     | _ \<Rightarrow> False))))"

text \<open>
  A concrete frame (every landmark at the centre of a 1280 x 720 image, so both eyes
  are degenerate and the EAR is 0) and a concrete calibrated processor, used to
  evaluate the model.
\<close>

definition example_frame :: "real \<Rightarrow> frame_obs" where
  "example_frame t =
     \<lparr>obs_now = t, frame_shape = (720, 1280),
      face_results = Some (replicate 478 (1 / 2, 1 / 2)),
      pose_landmarks_present = False, lstm_prediction = None,
      head_angle_y = Some 0, rub_type = 0\<rparr>"

definition example_calibration :: calibration where
  "example_calibration = \<lparr>cal_ear_mean = Some (3 / 10), cal_mar_mean = Some (5 / 10)\<rparr>"

definition example_processor :: "fatigue_thresholds \<Rightarrow> fatigue_processor" where
  "example_processor th =
     set_calibration 1000 example_calibration
       (fatigue_processor_init th default_nod_config 3600 180 False 1000)"

text \<open>Thresholds with MAX\_ALERT\_EYES\_CLOSED\_FRAMES = 1, the other keys absent.\<close>

definition two_frame_thresholds :: fatigue_thresholds where
  "two_frame_thresholds = no_thresholds\<lparr>MAX_ALERT_EYES_CLOSED_FRAMES := Some 1\<rparr>"

text \<open>
  Landmarks with distinct mouth corners (61, 291) and coinciding lip landmarks (0, 17):
  the denominator of the MAR quotient is 0.
\<close>

definition mouth_closed_landmarks :: "point list" where
  "mouth_closed_landmarks =
     (replicate 478 (1 / 2, 1 / 2))[61 := (2 / 5, 1 / 2), 291 := (3 / 5, 1 / 2)]"

section \<open>Session state machine (gui.py, class MainWindow; pose\_estimator.py)\<close>

datatype app_state = LISTENING | IDENTIFYING | AUTO_REGISTERING | MONITORING | REPOSO

text \<open>\<open>config['recognition_settings']['pose_limits']\<close>, read with \<open>.get\<close>.\<close>

record pose_limits =
  MAX_ABS_PITCH :: "real option"
  MAX_ABS_YAW :: "real option"
  MAX_ABS_ROLL :: "real option"

definition is_pose_acceptable :: "real \<Rightarrow> real \<Rightarrow> real \<Rightarrow> pose_limits \<Rightarrow> bool" where
  "is_pose_acceptable pitch yaw roll limits =
     (\<bar>pitch\<bar> \<le> dict_get (MAX_ABS_PITCH limits) 20
      \<and> \<bar>yaw\<bar> \<le> dict_get (MAX_ABS_YAW limits) 25
      \<and> \<bar>roll\<bar> \<le> dict_get (MAX_ABS_ROLL limits) 20)"

text \<open>
  The part of the configuration the state machine reads.  The entries of
  \<open>config['state_machine_thresholds']\<close> are read by subscript: an absent key (\<open>None\<close>)
  raises KeyError.
\<close>

record gui_config =
  pose_limits_of :: pose_limits
  stable_face_frames_to_identify :: "int option"
  face_lost_frames_to_logout :: "int option"
  auto_register_seconds :: "real option"

text \<open>
  The window object, reduced to the fields the state machine owns.  An attribute that
  no code assigns does not exist on the object, and reading it raises AttributeError:
  \<open>last_known_face_results\<close> is \<open>None\<close> while the attribute is unset (no statement of
  gui.py assigns it), \<open>Some r\<close> once it holds the value \<open>r\<close>.
\<close>

record main_window =
  config :: gui_config
  app_state :: app_state
  current_user_id :: "int option"
  current_user_code :: string
  stable_face_counter :: int
  face_lost_counter :: int
  auto_register_start_time :: "real option"
  last_known_face_results :: "point list option option"
  fatigue_processor_of :: fatigue_processor

text \<open>The state \<open>MainWindow.__init__\<close> establishes.\<close>

definition main_window_init :: "gui_config \<Rightarrow> fatigue_processor \<Rightarrow> main_window" where
  "main_window_init cfg fp =
     \<lparr>config = cfg, app_state = LISTENING, current_user_id = None,
      current_user_code = ''N/A'', stable_face_counter = 0, face_lost_counter = 0,
      auto_register_start_time = None, last_known_face_results = None,
      fatigue_processor_of = fp\<rparr>"

text \<open>
  One frame as \<open>process_frame\<close> sees it after the detectors ran: the clock, the face-mesh
  landmarks (\<open>None\<close> when no face was found) and the result of
  \<open>PoseEstimator.estimate_head_pose\<close> on them (\<open>None\<close> when it fails; the function
  catches every exception itself).
\<close>

record gui_frame =
  gf_now :: real
  gf_face_results :: "point list option"
  gf_head_pose :: "(real \<times> real \<times> real) option"

text \<open>\<open>pose_data\<close> as \<open>process_frame\<close> computes it: estimated only when a face is present.\<close>

definition pose_data_of :: "gui_frame \<Rightarrow> (real \<times> real \<times> real) option" where
  "pose_data_of f = (case gf_face_results f of None \<Rightarrow> None | Some lms \<Rightarrow> gf_head_pose f)"

definition pose_ok :: "gui_config \<Rightarrow> (real \<times> real \<times> real) option \<Rightarrow> bool" where
  "pose_ok cfg pose_data =
     (case pose_data of
        None \<Rightarrow> False
      | Some (pitch, yaw, roll) \<Rightarrow> is_pose_acceptable pitch yaw roll (pose_limits_of cfg))"

text \<open>
  Code the handlers call that is not part of the state machine itself, taken as
  parameters: the bodies of the two \<open>try\<close> blocks (pose check, alignment, embedding,
  matching and login in \<open>_handle_identifying_state\<close>; alignment, embedding, persistence
  and login in \<open>_execute_auto_registration\<close>), each returning the exception it raised,
  if any, and the window as it left it; and the two methods that
  \<open>_handle_monitoring_state\<close> calls on the FatigueProcessor.
\<close>

record collaborators =
  identify_attempt :: "point list \<Rightarrow> gui_frame \<Rightarrow> main_window \<Rightarrow> py_error option \<times> main_window"
  registration_attempt :: "gui_frame \<Rightarrow> main_window \<Rightarrow> py_error option \<times> main_window"
  update_face_detection_status :: "bool \<Rightarrow> fatigue_processor \<Rightarrow> py_error + fatigue_processor"
  handle_distraction :: "fatigue_processor \<Rightarrow> py_error + fatigue_processor"

text \<open>
  The class FatigueProcessor defines neither \<open>update_face_detection_status\<close> nor
  \<open>handle_distraction\<close>: with the class as written, both calls raise AttributeError.
\<close>

definition methods_as_written :: "collaborators \<Rightarrow> collaborators" where
  "methods_as_written c =
     c\<lparr>update_face_detection_status := (\<lambda>face_detected fp. Inl AttributeError),
       handle_distraction := (\<lambda>fp. Inl AttributeError)\<rparr>"

text \<open>Every handler returns the exception that left it, if any, and the window.\<close>

definition handle_listening_state :: "gui_frame \<Rightarrow> main_window \<Rightarrow> py_error option \<times> main_window" where
  "handle_listening_state f w =
     (if gf_face_results f \<noteq> None \<and> pose_ok (config w) (pose_data_of f) then
        (let w1 = w\<lparr>stable_face_counter := stable_face_counter w + 1\<rparr>
         in case stable_face_frames_to_identify (config w1) of
              None \<Rightarrow> (Some KeyError, w1)
            | Some stable_frames_threshold \<Rightarrow>
                (if stable_face_counter w1 \<ge> stable_frames_threshold
                 then (None, w1\<lparr>app_state := IDENTIFYING, stable_face_counter := 0\<rparr>)
                 else (None, w1)))
      else (None, w\<lparr>stable_face_counter := 0\<rparr>))"

text \<open>
  \<open>_handle_identifying_state\<close>: the first test reads \<open>self.last_known_face_results\<close>
  outside the \<open>try\<close>; an exception of the \<open>try\<close> body is caught and leads to LISTENING.
\<close>

definition handle_identifying_state ::
  "collaborators \<Rightarrow> gui_frame \<Rightarrow> main_window \<Rightarrow> py_error option \<times> main_window" where
  "handle_identifying_state c f w =
     (case last_known_face_results w of
        None \<Rightarrow> (Some AttributeError, w)
      | Some None \<Rightarrow> (None, w\<lparr>app_state := LISTENING\<rparr>)
      | Some (Some lms) \<Rightarrow>
          (case identify_attempt c lms f w of
             (None, w1) \<Rightarrow> (None, w1)
           | (Some e, w1) \<Rightarrow> (None, w1\<lparr>app_state := LISTENING\<rparr>)))"

definition execute_auto_registration ::
  "collaborators \<Rightarrow> gui_frame \<Rightarrow> main_window \<Rightarrow> py_error option \<times> main_window" where
  "execute_auto_registration c f w =
     (case registration_attempt c f w of
        (None, w1) \<Rightarrow> (None, w1)
      | (Some e, w1) \<Rightarrow> (None, w1\<lparr>app_state := LISTENING\<rparr>))"

definition handle_auto_registering_state ::
  "collaborators \<Rightarrow> gui_frame \<Rightarrow> main_window \<Rightarrow> py_error option \<times> main_window" where
  "handle_auto_registering_state c f w =
     (let start = (case auto_register_start_time w of None \<Rightarrow> gf_now f | Some t \<Rightarrow> t);
          w1 = w\<lparr>auto_register_start_time := Some start\<rparr>
      in case auto_register_seconds (config w1) of
           None \<Rightarrow> (Some KeyError, w1)
         | Some wait_time \<Rightarrow>
             (let time_elapsed = gf_now f - start;
                  time_left = wait_time - time_elapsed
              in if \<not> pose_ok (config w1) (pose_data_of f)
                 then (None, w1\<lparr>app_state := LISTENING, auto_register_start_time := None\<rparr>)
                 else if time_left \<le> 0 then execute_auto_registration c f w1
                 else (None, w1)))"

text \<open>
  \<open>_handle_monitoring_state\<close> as gui.py defines it (the window always has a
  \<open>fatigue_processor\<close>).  Its last reachable statement calls
  \<open>process_frame_for_inference\<close> with five arguments; the method takes four, so the
  call raises TypeError.  The handler reads and writes neither \<open>app_state\<close>, nor the
  bound user, nor \<open>face_lost_counter\<close>, and it does not call \<open>_logout_user\<close>.
\<close>

definition handle_monitoring_state ::
  "collaborators \<Rightarrow> gui_frame \<Rightarrow> main_window \<Rightarrow> py_error option \<times> main_window" where
  "handle_monitoring_state c f w =
     (let face_detected = (gf_face_results f \<noteq> None)
      in case update_face_detection_status c face_detected (fatigue_processor_of w) of
           Inl e \<Rightarrow> (Some e, w)
         | Inr fp1 \<Rightarrow>
             (let w1 = w\<lparr>fatigue_processor_of := fp1\<rparr>
              in if \<not> face_detected then
                   (case handle_distraction c fp1 of
                      Inl e \<Rightarrow> (Some e, w1)
                    | Inr fp2 \<Rightarrow> (None, w1\<lparr>fatigue_processor_of := fp2\<rparr>))
                 else (Some TypeError, w1)))"

text \<open>
  \<open>_logout_user\<close>: it unbinds the user and returns to LISTENING, then reaches the
  statement \<open>if not is_user_present:\<close>.  The name \<open>is_user_present\<close> is bound nowhere in
  gui.py, so the statement raises NameError; the face-lost counting and the calibration,
  enrichment and detection steps that follow it in the body of \<open>_logout_user\<close> are never
  executed.  No handler calls \<open>_logout_user\<close>.
\<close>

definition logout_user :: "real \<Rightarrow> main_window \<Rightarrow> py_error option \<times> main_window" where
  "logout_user now w =
     (Some NameError,
      w\<lparr>current_user_id := None, current_user_code := ''N/A'', app_state := LISTENING,
        face_lost_counter := 0,
        fatigue_processor_of := reset_state now (fatigue_processor_of w)\<rparr>)"

text \<open>
  The state-machine step of \<open>process_frame\<close> (the face processor being initialised):
  the dispatch on \<open>app_state\<close>.  No \<open>try\<close> surrounds the dispatch, so an exception that
  leaves a handler leaves \<open>process_frame\<close>.
\<close>

definition process_frame ::
  "collaborators \<Rightarrow> gui_frame \<Rightarrow> main_window \<Rightarrow> py_error option \<times> main_window" where
  "process_frame c f w =
     (case app_state w of
        LISTENING \<Rightarrow> handle_listening_state f w
      | IDENTIFYING \<Rightarrow> handle_identifying_state c f w
      | AUTO_REGISTERING \<Rightarrow> handle_auto_registering_state c f w
      | MONITORING \<Rightarrow> handle_monitoring_state c f w
      | REPOSO \<Rightarrow> (None, w))"

text \<open>
  Consecutive frames: the result of every call, in order.  The window is carried from
  one call to the next whether or not the call raised.
\<close>

fun process_frames ::
  "collaborators \<Rightarrow> gui_frame list \<Rightarrow> main_window \<Rightarrow> (py_error option \<times> main_window) list" where
  "process_frames c [] w = []"
| "process_frames c (f # fs) w =
     (let r = process_frame c f w in r # process_frames c fs (snd r))"

text \<open>A frame the LISTENING state counts as stable: a face with an acceptable pose.\<close>

definition acceptable_frame :: "gui_config \<Rightarrow> gui_frame \<Rightarrow> bool" where
  "acceptable_frame cfg f = (gf_face_results f \<noteq> None \<and> pose_ok cfg (pose_data_of f))"

text \<open>The window after the last of a sequence of calls (the given one if there was none).\<close>

definition final_window ::
  "main_window \<Rightarrow> (py_error option \<times> main_window) list \<Rightarrow> main_window" where
  "final_window w rs = (if rs = [] then w else snd (last rs))"

text \<open>A call that raised nothing and left the machine in LISTENING.\<close>

definition stays_listening :: "py_error option \<times> main_window \<Rightarrow> bool" where
  "stays_listening r = (fst r = None \<and> app_state (snd r) = LISTENING)"

text \<open>
  Concrete values used to evaluate the model: collaborators whose attempts raise, a
  configuration with a three-frame stability threshold, three kinds of frame and the
  window after construction.
\<close>

definition failing_collaborators :: collaborators where
  "failing_collaborators =
     \<lparr>identify_attempt = (\<lambda>lms f w. (Some AttributeError, w)),
      registration_attempt = (\<lambda>f w. (Some AttributeError, w)),
      update_face_detection_status = (\<lambda>face_detected fp. Inl AttributeError),
      handle_distraction = (\<lambda>fp. Inl AttributeError)\<rparr>"

definition example_gui_config :: gui_config where
  "example_gui_config =
     \<lparr>pose_limits_of = \<lparr>MAX_ABS_PITCH = None, MAX_ABS_YAW = None, MAX_ABS_ROLL = None\<rparr>,
      stable_face_frames_to_identify = Some 3, face_lost_frames_to_logout = Some 2,
      auto_register_seconds = Some 15\<rparr>"

definition steady_face :: "real \<Rightarrow> gui_frame" where
  "steady_face t = \<lparr>gf_now = t, gf_face_results = Some (replicate 478 (1 / 2, 1 / 2)),
                    gf_head_pose = Some (5, - 10, 0)\<rparr>"

definition turned_face :: "real \<Rightarrow> gui_frame" where
  "turned_face t = \<lparr>gf_now = t, gf_face_results = Some (replicate 478 (1 / 2, 1 / 2)),
                    gf_head_pose = Some (5, 40, 0)\<rparr>"

definition no_face :: "real \<Rightarrow> gui_frame" where
  "no_face t = \<lparr>gf_now = t, gf_face_results = None, gf_head_pose = None\<rparr>"

definition example_window :: main_window where
  "example_window = main_window_init example_gui_config (example_processor no_thresholds)"

text \<open>
  The monitoring session of window \<open>w\<close> is untouched in a result: still MONITORING, the
  same bound user, the same face-lost counter.
\<close>

definition session_kept :: "main_window \<Rightarrow> py_error option \<times> main_window \<Rightarrow> bool" where
  "session_kept w r =
     (app_state (snd r) = MONITORING \<and> current_user_id (snd r) = current_user_id w
      \<and> current_user_code (snd r) = current_user_code w
      \<and> face_lost_counter (snd r) = face_lost_counter w)"

text \<open>
  A frame on which the raw eyes-closed condition holds, whatever the LSTM classifier
  does: a face is detected, its metrics can be computed, the calibration has both
  means and the EAR is below the calibrated threshold.
\<close>

definition ear_below_obs :: "fatigue_processor \<Rightarrow> frame_obs \<Rightarrow> bool" where
  "ear_below_obs fp obs =
     (case face_results obs of
        None \<Rightarrow> False
      | Some lms \<Rightarrow>
          (case calculate_facial_metrics lms (frame_shape obs) (calibration_data fp) of
             Inl e \<Rightarrow> False
           | Inr m \<Rightarrow>
               (case calibration_data fp of
                  None \<Rightarrow> False
                | Some cal \<Rightarrow>
                    (case (cal_ear_mean cal, cal_mar_mean cal) of
                       (Some ce, Some cm) \<Rightarrow> ear_below fp (ear m) ce
                     | _ \<Rightarrow> False))))"

text \<open>
  The default thresholds with the LSTM classifier loaded (the default configuration
  enables it), calibrated at time 1000; and 61 eyes-closed frames, one per second: the
  classifier returns None while its 20-sample buffer fills, then 0, and 1 on the last
  frame.
\<close>

definition example_lstm_processor :: fatigue_processor where
  "example_lstm_processor =
     set_calibration 1000 example_calibration
       (fatigue_processor_init no_thresholds default_nod_config 3600 180 True 1000)"

definition lstm_frame :: "real \<Rightarrow> int option \<Rightarrow> frame_obs" where
  "lstm_frame t p = (example_frame t)\<lparr>lstm_prediction := p\<rparr>"

definition lstm_failing_frames :: "frame_obs list" where
  "lstm_failing_frames =
     map (\<lambda>i. lstm_frame (1000 + real i) None) [1..<20]
     @ map (\<lambda>i. lstm_frame (1000 + real i) (Some 0)) [20..<61]
     @ [lstm_frame 1061 (Some 1)]"

section \<open>Properties\<close>

lemma compare_embeddings_same_shape:
  "same_shape q u \<Longrightarrow> compare_embeddings (Some q) (embedding u) = Inr (similarity_of q u)"
  by (cases "embedding u")
     (simp_all add: same_shape_def compare_embeddings_def similarity_of_def np_dot_def)

lemma true_max_similarity_Cons:
  "us \<noteq> [] \<Longrightarrow>
   true_max_similarity q (u # us) = max (similarity_of q u) (true_max_similarity q us)"
  by (simp add: true_max_similarity_def)

lemma true_max_similarity_single:
  "true_max_similarity q [u] = similarity_of q u"
  by (simp add: true_max_similarity_def)

lemma find_match_loop_char:
  assumes "\<forall>u \<in> set us. same_shape q u" and "us \<noteq> []"
  shows "find_match_loop (Some q) thr us (best, hi) =
           Inr (if hi < true_max_similarity q us \<and> thr \<le> true_max_similarity q us
                then find (\<lambda>u. similarity_of q u = true_max_similarity q us) us
                else best,
                max hi (true_max_similarity q us))"
  using assms
proof (induction us arbitrary: best hi)
  case Nil
  then show ?case by simp
next
  case (Cons u us)
  have cu: "compare_embeddings (Some q) (embedding u) = Inr (similarity_of q u)"
    using Cons.prems by (simp add: compare_embeddings_same_shape)
  show ?case
  proof (cases "us = []")
    case True
    then show ?thesis
      by (simp add: cu true_max_similarity_single max_def)
  next
    case False
    have sh: "\<forall>u \<in> set us. same_shape q u" using Cons.prems by simp
    note IH = Cons.IH [OF sh False]
    show ?thesis
      by (simp add: cu IH true_max_similarity_Cons [OF False] max_def)
  qed
qed

text \<open>
  Within the range of cosine similarities and with a threshold above -1 the initial
  value -1 plays no role: the reported similarity is the true maximum and a user is
  returned exactly when it reaches the threshold.
\<close>

lemma find_match_unit_range:
  assumes "\<forall>u \<in> set known. same_shape q u" "known \<noteq> []"
    and "- 1 \<le> true_max_similarity q known" "- 1 < thr"
  shows "find_match (Some q) known thr =
           Inr (if thr \<le> true_max_similarity q known
                then find (\<lambda>u. similarity_of q u = true_max_similarity q known) known
                else None,
                true_max_similarity q known)"
  using assms by (simp add: find_match_def find_match_loop_char max_def)

text \<open>
  C3 (amended).  For a present query and a non-empty list of candidates whose embeddings
  have the query's shape, \<open>find_match\<close> reports the larger of the true maximum similarity
  and the initial value -1, and returns a user exactly when the true maximum is at least
  the threshold and strictly above -1; the user is then the first candidate attaining the
  maximum.  With an absent query or an empty list it returns no user and 0.
\<close>

theorem find_match_reports_max:
  "((\<forall>u \<in> set known. same_shape q u) \<and> known \<noteq> [] \<longrightarrow>
      find_match (Some q) known thr =
        Inr (if - 1 < true_max_similarity q known \<and> thr \<le> true_max_similarity q known
             then find (\<lambda>u. similarity_of q u = true_max_similarity q known) known
             else None,
             max (- 1) (true_max_similarity q known)))
   \<and> find_match None known thr = Inr (None, 0)
   \<and> find_match qo [] thr = Inr (None, 0)"
  by (simp add: find_match_def find_match_loop_char)

theorem find_match_reports_max_witness:
  "same_shape [1, 0] \<lparr>user_id = 1, codigo_usuario = ''U1'', embedding = Some [0, 1]\<rparr>
   \<and> same_shape [1, 0] \<lparr>user_id = 2, codigo_usuario = ''U2'', embedding = Some [1, 0]\<rparr>
   \<and> same_shape [1, 0] \<lparr>user_id = 3, codigo_usuario = ''U3'', embedding = Some [1, 0]\<rparr>
   \<and> find_match (Some [1, 0])
         [\<lparr>user_id = 1, codigo_usuario = ''U1'', embedding = Some [0, 1]\<rparr>,
          \<lparr>user_id = 2, codigo_usuario = ''U2'', embedding = Some [1, 0]\<rparr>,
          \<lparr>user_id = 3, codigo_usuario = ''U3'', embedding = Some [1, 0]\<rparr>] (45 / 100)
       = Inr (Some \<lparr>user_id = 2, codigo_usuario = ''U2'', embedding = Some [1, 0]\<rparr>, 1)
   \<and> find_match None [\<lparr>user_id = 1, codigo_usuario = ''U1'', embedding = Some [0, 1]\<rparr>] (45 / 100)
       = Inr (None, 0)
   \<and> find_match (Some [1, 0]) [] (45 / 100) = Inr (None, 0)"
  using find_match_reports_max
    [of "[\<lparr>user_id = 1, codigo_usuario = ''U1'', embedding = Some [0, 1]\<rparr>,
          \<lparr>user_id = 2, codigo_usuario = ''U2'', embedding = Some [1, 0]\<rparr>,
          \<lparr>user_id = 3, codigo_usuario = ''U3'', embedding = Some [1, 0]\<rparr>]"
        "[1, 0]" "45 / 100" "Some [1, 0]"]
    find_match_reports_max
    [of "[\<lparr>user_id = 1, codigo_usuario = ''U1'', embedding = Some [0, 1]\<rparr>]"
        "[1, 0]" "45 / 100" "Some [1, 0]"]
  by (simp add: same_shape_def similarity_of_def true_max_similarity_def)

theorem find_match_threshold_counterexample:
  "find_match (Some [1, 0])
     [\<lparr>user_id = 1, codigo_usuario = ''U1'', embedding = Some [- 1, 0]\<rparr>] (- 1)
     = Inr (None, - 1)
   \<and> (- 1 :: real) \<le> true_max_similarity [1, 0]
        [\<lparr>user_id = 1, codigo_usuario = ''U1'', embedding = Some [- 1, 0]\<rparr>]"
  by (simp add: find_match_def compare_embeddings_def np_dot_def
      true_max_similarity_def similarity_of_def)

subsection \<open>Active-pause handler\<close>

lemma pausa_run_append:
  "snd (pausa_run (xs @ ys) st) = snd (pausa_run ys (snd (pausa_run xs st)))"
  by (induction xs arbitrary: st) (auto simp: split_beta Let_def)

lemma absence_inv_step:
  "absence_inv a1 rt st \<Longrightarrow> absence_inv a1 rt (snd (pausa_update t False False st))"
  by (auto simp: absence_inv_def pausa_update_def pausa_reset_def Let_def)

lemma absence_inv_run:
  "absence_inv a1 rt st \<Longrightarrow> absence_inv a1 rt (snd (pausa_run (absent_updates ts) st))"
  by (induction ts arbitrary: st)
     (auto simp: absent_updates_def split_beta Let_def dest: absence_inv_step)

lemma absence_first:
  "\<not> is_paused st \<Longrightarrow>
   absence_inv a1 (reset_threshold st) (snd (pausa_update a1 False False st))"
  by (auto simp: absence_inv_def pausa_update_def pausa_reset_def Let_def)

lemma absence_last:
  "absence_inv a1 rt st \<Longrightarrow> a1 \<noteq> 0 \<Longrightarrow> a2 - a1 > rt \<Longrightarrow>
   elapsed_work_time (snd (pausa_update a2 False False st)) = 0"
  by (auto simp: absence_inv_def pausa_update_def pausa_reset_def Let_def)

lemma pausa_absence_resets:
  assumes "\<not> is_paused st" "a1 \<noteq> 0" "a2 - a1 > reset_threshold st"
  shows "elapsed_work_time (snd (pausa_run (absent_updates (a1 # mid @ [a2])) st)) = 0"
proof -
  let ?s1 = "snd (pausa_update a1 False False st)"
  let ?s2 = "snd (pausa_run (absent_updates mid) ?s1)"
  have "absence_inv a1 (reset_threshold st) ?s2"
    using assms(1) by (intro absence_inv_run absence_first)
  then have "elapsed_work_time (snd (pausa_update a2 False False ?s2)) = 0"
    using assms(2,3) by (rule absence_last)
  moreover have "snd (pausa_run (absent_updates (a1 # mid @ [a2])) st)
      = snd (pausa_update a2 False False ?s2)"
    by (simp add: absent_updates_def pausa_run_append split_beta Let_def)
  ultimately show ?thesis by simp
qed

lemma pausa_present_step:
  assumes "work_duration st = 10" "cycle_started_at c st" "face \<or> pose"
  shows "fst (fst (pausa_update now face pose st)) = (now - c \<ge> 10)"
    and "now - c \<ge> 10 \<Longrightarrow>
           elapsed_work_time (snd (pausa_update now face pose st)) = 0
           \<and> is_paused (snd (pausa_update now face pose st))
           \<and> pause_start_time (snd (pausa_update now face pose st)) = None
           \<and> cycle_started_at now (snd (pausa_update now face pose st))"
    and "\<not> now - c \<ge> 10 \<Longrightarrow> cycle_started_at c (snd (pausa_update now face pose st))"
    and "work_duration (snd (pausa_update now face pose st)) = 10"
  using assms
  by (auto simp: cycle_started_at_def pausa_update_def pausa_reset_def Let_def)

lemma pausa_present_run:
  "work_duration st = 10 \<Longrightarrow> cycle_started_at c st \<Longrightarrow> list_all user_present upds \<Longrightarrow>
   map fst (fst (pausa_run upds st)) = alerts_once_per_cycle 10 c (map fst upds)"
proof (induction upds arbitrary: st c)
  case Nil
  then show ?case by simp
next
  case (Cons u upds)
  obtain now f p where u: "u = (now, f, p)" by (cases u) auto
  let ?st1 = "snd (pausa_update now f p st)"
  have pres: "f \<or> p"
    using Cons.prems(3) by (simp add: u user_present_def)
  have rest: "list_all user_present upds"
    using Cons.prems(3) by simp
  note step = pausa_present_step [OF Cons.prems(1) Cons.prems(2) pres, of now]
  show ?case
  proof (cases "now - c \<ge> 10")
    case True
    then have "cycle_started_at now ?st1" using step(2) by simp
    from Cons.IH [OF step(4) this rest] True step(1) show ?thesis
      by (simp add: u split_beta Let_def)
  next
    case False
    then have "cycle_started_at c ?st1" using step(3) by simp
    from Cons.IH [OF step(4) this rest] False step(1) show ?thesis
      by (simp add: u split_beta Let_def)
  qed
qed

lemma pausa_remaining_nonneg: "0 \<le> snd (fst (pausa_update now face pose st))"
  by (simp add: pausa_update_def Let_def split_beta py_int_def)

text \<open>
  C8.  A handler configured with work\_duration = 10, in a work cycle that started at
  \<open>c\<close>: over any run of updates with the user present, should\_alert is True exactly at
  the first update at least 10 s after the start of the current cycle, and each alert
  zeroes the elapsed time, clears the pause start and begins a new cycle at that update.
  Mid-cycle (the counter running), a run of updates with the user absent whose last
  update comes more than reset\_threshold seconds after the first resets the elapsed
  work time to 0.  Every update returns a seconds-remaining value that is at least 0.
\<close>

theorem pausa_activa_cycle:
  "(work_duration st = 10 \<and> cycle_started_at c st \<and> list_all user_present upds \<longrightarrow>
      map fst (fst (pausa_run upds st)) = alerts_once_per_cycle 10 c (map fst upds))
   \<and> (work_duration st = 10 \<and> cycle_started_at c st \<and> (face \<or> pose)
        \<and> fst (fst (pausa_update now face pose st)) \<longrightarrow>
      elapsed_work_time (snd (pausa_update now face pose st)) = 0
      \<and> is_paused (snd (pausa_update now face pose st))
      \<and> pause_start_time (snd (pausa_update now face pose st)) = None
      \<and> cycle_started_at now (snd (pausa_update now face pose st)))
   \<and> (\<not> is_paused st \<and> a1 \<noteq> 0 \<and> a2 - a1 > reset_threshold st \<longrightarrow>
      elapsed_work_time (snd (pausa_run (absent_updates (a1 # mid @ [a2])) st)) = 0)
   \<and> 0 \<le> snd (fst (pausa_update now face pose st))"
proof (intro conjI impI)
  assume "work_duration st = 10 \<and> cycle_started_at c st \<and> list_all user_present upds"
  then show "map fst (fst (pausa_run upds st)) = alerts_once_per_cycle 10 c (map fst upds)"
    by (simp add: pausa_present_run)
next
  assume a: "work_duration st = 10 \<and> cycle_started_at c st \<and> (face \<or> pose)
        \<and> fst (fst (pausa_update now face pose st))"
  then have wd: "work_duration st = 10" and cy: "cycle_started_at c st"
    and pr: "face \<or> pose" and al: "fst (fst (pausa_update now face pose st))"
    by simp_all
  have ge: "now - c \<ge> 10" using pausa_present_step(1) [OF wd cy pr, of now] al by simp
  note r = pausa_present_step(2) [OF wd cy pr ge]
  show "elapsed_work_time (snd (pausa_update now face pose st)) = 0" using r by simp
  show "is_paused (snd (pausa_update now face pose st))" using r by simp
  show "pause_start_time (snd (pausa_update now face pose st)) = None" using r by simp
  show "cycle_started_at now (snd (pausa_update now face pose st))" using r by simp
next
  assume "\<not> is_paused st \<and> a1 \<noteq> 0 \<and> a2 - a1 > reset_threshold st"
  then show "elapsed_work_time (snd (pausa_run (absent_updates (a1 # mid @ [a2])) st)) = 0"
    by (simp add: pausa_absence_resets)
next
  show "0 \<le> snd (fst (pausa_update now face pose st))" by (rule pausa_remaining_nonneg)
qed

theorem pausa_activa_cycle_witness:
  "work_duration (pausa_init 10 180 100) = 10
   \<and> cycle_started_at 100 (pausa_init 10 180 100)
   \<and> list_all user_present
        [(105, True, False), (110, False, True), (115, True, True), (121, True, False)]
   \<and> map fst (fst (pausa_run
        [(105, True, False), (110, False, True), (115, True, True), (121, True, False)]
        (pausa_init 10 180 100))) = [False, True, False, True]
   \<and> fst (fst (pausa_update 110 True False (pausa_init 10 180 100)))
   \<and> elapsed_work_time (snd (pausa_update 110 True False (pausa_init 10 180 100))) = 0
   \<and> \<not> is_paused (snd (pausa_update 105 True False (pausa_init 10 180 100)))
   \<and> elapsed_work_time (snd (pausa_update 105 True False (pausa_init 10 180 100))) = 5
   \<and> (300 :: real) \<noteq> 0
   \<and> 500 - 300 > reset_threshold (snd (pausa_update 105 True False (pausa_init 10 180 100)))
   \<and> elapsed_work_time (snd (pausa_run (absent_updates [300, 400, 500])
        (snd (pausa_update 105 True False (pausa_init 10 180 100))))) = 0
   \<and> 0 \<le> snd (fst (pausa_update 110 True False (pausa_init 10 180 100)))"
  using pausa_activa_cycle
    [where st = "pausa_init 10 180 100" and c = 100 and now = 110 and face = True
       and pose = False
       and upds = "[(105, True, False), (110, False, True), (115, True, True),
                    (121, True, False)]"]
    pausa_activa_cycle
    [where st = "snd (pausa_update 105 True False (pausa_init 10 180 100))"
       and ?a1.0 = 300 and ?a2.0 = 500 and mid = "[400]"]
  by (simp add: pausa_init_def cycle_started_at_def user_present_def pausa_update_def
      pausa_reset_def Let_def)

subsection \<open>Nod detector\<close>

text \<open>
  C4 (amended).  Fed the angle sequence of the specification at 30 ms intervals from any
  start time, a detector with the default configuration returns is\_nodding = False on
  every one of the 20 updates: the repeated samples put a zero delta between the rise,
  the fall and the return, so no two consecutive deltas have opposite signs and the
  recovery test never holds.  A second identical window fed afterwards, from any start
  time, also returns False on every update.
\<close>

theorem nod_window_never_fires:
  "fst (nod_run default_nod_config (sampled_at t0 (3 / 100) nod_test_angles) nod_reset)
     = [False, False, False, False, False, False, False, False, False, False,
        False, False, False, False, False, False, False, False, False, False]
   \<and> fst (nod_run default_nod_config (sampled_at t1 (3 / 100) nod_test_angles)
           (snd (nod_run default_nod_config (sampled_at t0 (3 / 100) nod_test_angles)
                   nod_reset)))
     = [False, False, False, False, False, False, False, False, False, False,
        False, False, False, False, False, False, False, False, False, False]"
  by (simp add: nod_test_angles_def sampled_at_def nod_update_def detect_nodding_def
      nod_reset_def default_nod_config_def recovery_pattern_def np_diff_def Let_def)

theorem nod_window_counterexample:
  "length (filter (\<lambda>b. b)
     (fst (nod_run default_nod_config (sampled_at 1000 (3 / 100) nod_test_angles)
             nod_reset))) = 0"
  by (simp add: nod_test_angles_def sampled_at_def nod_update_def detect_nodding_def
      nod_reset_def default_nod_config_def recovery_pattern_def np_diff_def Let_def)

text \<open>
  The same window without the repeated samples does contain a rise directly followed
  by a fall, and the detector declares one nod, on the update that appends the fall.
\<close>

lemma nod_detected_without_repeats:
  "fst (nod_run default_nod_config
          (sampled_at 1000 (3 / 100)
             [0, 0, 0, 0, 0, 0, 0, 0, 0, 0, 14, - 8, 0, 0, 0, 0, 0, 0, 0, 0]) nod_reset)
     = [False, False, False, False, False, False, False, False, False, False,
        False, True, False, False, False, False, False, False, False, False]"
  by (simp add: sampled_at_def nod_update_def detect_nodding_def large_dip_def
      nod_reset_def default_nod_config_def recovery_pattern_def np_diff_def Let_def)

subsection \<open>Fatigue event detector\<close>

lemma yawn_step_view: "eyes_view (snd (yawn_step now m cm ev fp)) = eyes_view fp"
  by (simp add: yawn_step_def eyes_view_def Let_def)

lemma yawn_step_events:
  "x \<noteq> ''Bostezar'' \<Longrightarrow> x \<in> set (fst (yawn_step now m cm ev fp)) \<longleftrightarrow> x \<in> set ev"
  by (simp add: yawn_step_def Let_def)

lemma nod_step_view: "eyes_view (snd (nod_step now a ev fp)) = eyes_view fp"
  by (simp add: nod_step_def eyes_view_def Let_def)

lemma nod_step_events:
  "x \<noteq> ''Cabeceo'' \<Longrightarrow> x \<in> set (fst (nod_step now a ev fp)) \<longleftrightarrow> x \<in> set ev"
  by (simp add: nod_step_def Let_def)

lemma eye_rub_step_view: "eyes_view (snd (eye_rub_step now r ev fp)) = eyes_view fp"
  by (simp add: eye_rub_step_def eyes_view_def Let_def)

lemma eye_rub_step_events:
  "x \<noteq> ''Frotar Ojos'' \<Longrightarrow> x \<in> set (fst (eye_rub_step now r ev fp)) \<longleftrightarrow> x \<in> set ev"
  by (simp add: eye_rub_step_def Let_def)

lemma eyes_closed_step_char:
  assumes "''Somnolencia'' \<notin> set ev" "''Despierta'' \<notin> set ev"
  shows "closed_eyes_frames (snd (eyes_closed_step now e ce ev fp)) = eyes_counter_after fp e ce"
    and "''Somnolencia'' \<in> set (fst (eyes_closed_step now e ce ev fp)) \<longleftrightarrow>
           e < ce * dict_get (DROWSINESS_EAR_FACTOR (thresholds fp)) (75 / 100)
           \<and> eyes_counter_after fp e ce > dict_get (DROWSINESS_EYES_CLOSED_FRAMES (thresholds fp)) 20
           \<and> \<not> eyes_counter_after fp e ce > dict_get (MAX_ALERT_EYES_CLOSED_FRAMES (thresholds fp)) 60"
    and "''Despierta'' \<in> set (fst (eyes_closed_step now e ce ev fp)) \<longleftrightarrow>
           e < ce * dict_get (DROWSINESS_EAR_FACTOR (thresholds fp)) (75 / 100)
           \<and> eyes_counter_after fp e ce > dict_get (MAX_ALERT_EYES_CLOSED_FRAMES (thresholds fp)) 60
           \<and> now - last_despierta_alert_time fp > 5"
    and "last_despierta_alert_time (snd (eyes_closed_step now e ce ev fp)) =
           (if ''Despierta'' \<in> set (fst (eyes_closed_step now e ce ev fp)) then now
            else last_despierta_alert_time fp)"
    and "thresholds (snd (eyes_closed_step now e ce ev fp)) = thresholds fp"
    and "calibration_data (snd (eyes_closed_step now e ce ev fp)) = calibration_data fp"
    and "lstm_classifier_loaded (snd (eyes_closed_step now e ce ev fp)) = lstm_classifier_loaded fp"
  using assms
  by (auto simp: eyes_closed_step_def eyes_counter_after_def Let_def)

lemma calibrated_frame:
  assumes f: "face_results obs = Some lms"
    and m: "calculate_facial_metrics lms (frame_shape obs) (calibration_data fp) = Inr m"
    and l: "\<not> (lstm_classifier_loaded fp \<and> lstm_prediction obs = Some 1)"
    and c: "calibration_data fp = Some cal" "cal_ear_mean cal = Some ce"
           "cal_mar_mean cal = Some cm"
  defines "r \<equiv> process_frame_for_inference obs fp"
  defines "c' \<equiv> (if ear_below fp (ear m) ce then closed_eyes_frames fp + 1 else 0)"
  shows "returned (fst r)"
    and "closed_eyes_frames (snd r) = c'"
    and "emits ''Somnolencia'' (fst r) \<longleftrightarrow>
           ear_below fp (ear m) ce \<and> c' > drowsiness_frames fp \<and> \<not> c' > max_alert_frames fp"
    and "emits ''Despierta'' (fst r) \<longleftrightarrow>
           ear_below fp (ear m) ce \<and> c' > max_alert_frames fp
           \<and> obs_now obs - last_despierta_alert_time fp > 5"
    and "last_despierta_alert_time (snd r) =
           (if emits ''Despierta'' (fst r) then obs_now obs else last_despierta_alert_time fp)"
    and "thresholds (snd r) = thresholds fp"
    and "calibration_data (snd r) = calibration_data fp"
    and "lstm_classifier_loaded (snd r) = lstm_classifier_loaded fp"
proof -
  define pu where "pu = pausa_update (obs_now obs) True (pose_landmarks_present obs) (pausa_handler fp)"
  define fp2 where "fp2 = fp\<lparr>pausa_handler := snd pu, distraction_frames := 0\<rparr>"
  define ev0 where "ev0 = (if fst (fst pu) then [''Pausa Activa''] else [])"
  define y where "y = yawn_step (obs_now obs) (mar m) cm ev0 fp2"
  define e where "e = eyes_closed_step (obs_now obs) (ear m) ce (fst y) (snd y)"
  define n where "n = nod_step (obs_now obs) (head_angle_y obs) (fst e) (snd e)"
  define u where "u = eye_rub_step (obs_now obs) (rub_type obs) (fst n) (snd n)"
  have v2: "eyes_view fp2 = eyes_view fp"
    by (simp add: fp2_def eyes_view_def)
  have r: "r = (Inr (remdups (fst u)), snd u)"
    using f m l c
    by (simp add: r_def process_frame_for_inference_def calibrated_steps_def Let_def
        split_beta fp2_def pu_def ev0_def y_def e_def n_def u_def)
  have vy: "eyes_view (snd y) = eyes_view fp"
    by (simp add: y_def yawn_step_view v2)
  have ev0S: "''Somnolencia'' \<notin> set ev0" and ev0D: "''Despierta'' \<notin> set ev0"
    by (simp_all add: ev0_def)
  have yS: "''Somnolencia'' \<notin> set (fst y)" and yD: "''Despierta'' \<notin> set (fst y)"
    using ev0S ev0D by (simp_all add: y_def yawn_step_events)
  note ch = eyes_closed_step_char [OF yS yD, of "obs_now obs" "ear m" ce "snd y", folded e_def]
  have fy: "closed_eyes_frames (snd y) = closed_eyes_frames fp"
    "last_despierta_alert_time (snd y) = last_despierta_alert_time fp"
    "thresholds (snd y) = thresholds fp" "calibration_data (snd y) = calibration_data fp"
    "lstm_classifier_loaded (snd y) = lstm_classifier_loaded fp"
    using vy by (simp_all add: eyes_view_def)
  have vu: "eyes_view (snd u) = eyes_view (snd e)"
    by (simp add: u_def n_def eye_rub_step_view nod_step_view)
  have fu: "closed_eyes_frames (snd u) = closed_eyes_frames (snd e)"
    "last_despierta_alert_time (snd u) = last_despierta_alert_time (snd e)"
    "thresholds (snd u) = thresholds (snd e)" "calibration_data (snd u) = calibration_data (snd e)"
    "lstm_classifier_loaded (snd u) = lstm_classifier_loaded (snd e)"
    using vu by (simp_all add: eyes_view_def)
  have uS: "''Somnolencia'' \<in> set (fst u) \<longleftrightarrow> ''Somnolencia'' \<in> set (fst e)"
    and uD: "''Despierta'' \<in> set (fst u) \<longleftrightarrow> ''Despierta'' \<in> set (fst e)"
    by (simp_all add: u_def n_def eye_rub_step_events nod_step_events)
  have cnt: "eyes_counter_after (snd y) (ear m) ce = c'"
    by (simp add: eyes_counter_after_def c'_def ear_below_def fy)
  show "returned (fst r)" by (simp add: r returned_def)
  show "closed_eyes_frames (snd r) = c'"
    using ch(1) by (simp add: r fu cnt)
  show "emits ''Somnolencia'' (fst r) \<longleftrightarrow>
           ear_below fp (ear m) ce \<and> c' > drowsiness_frames fp \<and> \<not> c' > max_alert_frames fp"
    using ch(2) by (simp add: r emits_def uS cnt fy ear_below_def drowsiness_frames_def
        max_alert_frames_def)
  show D: "emits ''Despierta'' (fst r) \<longleftrightarrow>
           ear_below fp (ear m) ce \<and> c' > max_alert_frames fp
           \<and> obs_now obs - last_despierta_alert_time fp > 5"
    using ch(3) by (simp add: r emits_def uD cnt fy ear_below_def max_alert_frames_def)
  show "last_despierta_alert_time (snd r) =
           (if emits ''Despierta'' (fst r) then obs_now obs else last_despierta_alert_time fp)"
    using ch(4) by (simp add: r emits_def uD fu fy)
  show "thresholds (snd r) = thresholds fp" using ch(5) by (simp add: r fu fy)
  show "calibration_data (snd r) = calibration_data fp" using ch(6) by (simp add: r fu fy)
  show "lstm_classifier_loaded (snd r) = lstm_classifier_loaded fp"
    using ch(7) by (simp add: r fu fy)
qed

lemma eyes_closed_obs_cong:
  "thresholds fp' = thresholds fp \<Longrightarrow> calibration_data fp' = calibration_data fp \<Longrightarrow>
   lstm_classifier_loaded fp' = lstm_classifier_loaded fp \<Longrightarrow>
   eyes_closed_obs fp' obs = eyes_closed_obs fp obs"
  by (simp add: eyes_closed_obs_def ear_below_def
      cong: option.case_cong sum.case_cong prod.case_cong)

lemma eyes_closed_obsE:
  assumes "eyes_closed_obs fp obs"
  obtains lms m cal ce cm where "face_results obs = Some lms"
    "calculate_facial_metrics lms (frame_shape obs) (calibration_data fp) = Inr m"
    "\<not> (lstm_classifier_loaded fp \<and> lstm_prediction obs = Some 1)"
    "calibration_data fp = Some cal" "cal_ear_mean cal = Some ce" "cal_mar_mean cal = Some cm"
    "ear_below fp (ear m) ce"
proof -
  from assms obtain lms where 1: "face_results obs = Some lms"
    by (cases "face_results obs") (simp_all add: eyes_closed_obs_def)
  from assms 1 obtain m where
    2: "calculate_facial_metrics lms (frame_shape obs) (calibration_data fp) = Inr m"
    by (cases "calculate_facial_metrics lms (frame_shape obs) (calibration_data fp)")
       (simp_all add: eyes_closed_obs_def)
  from assms 1 2 obtain cal where 3: "calibration_data fp = Some cal"
    by (cases "calibration_data fp") (simp_all add: eyes_closed_obs_def)
  from assms 1 2 3 obtain ce where 4: "cal_ear_mean cal = Some ce"
    by (cases "cal_ear_mean cal") (simp_all add: eyes_closed_obs_def)
  from assms 1 2 3 4 obtain cm where 5: "cal_mar_mean cal = Some cm"
    by (cases "cal_mar_mean cal") (simp_all add: eyes_closed_obs_def)
  from assms 1 2 3 4 5 have 6: "ear_below fp (ear m) ce"
    and 7: "\<not> (lstm_classifier_loaded fp \<and> lstm_prediction obs = Some 1)"
    by (simp_all add: eyes_closed_obs_def)
  from 1 2 7 3 4 5 6 show thesis by (rule that)
qed

lemma closed_frame_step:
  assumes "eyes_closed_obs fp obs"
  defines "r \<equiv> process_frame_for_inference obs fp"
  shows "returned (fst r)"
    and "closed_eyes_frames (snd r) = closed_eyes_frames fp + 1"
    and "emits ''Despierta'' (fst r) \<longleftrightarrow>
           closed_eyes_frames fp + 1 > max_alert_frames fp
           \<and> obs_now obs - last_despierta_alert_time fp > 5"
    and "\<not> emits ''Despierta'' (fst r) \<Longrightarrow>
           last_despierta_alert_time (snd r) = last_despierta_alert_time fp"
    and "thresholds (snd r) = thresholds fp"
    and "calibration_data (snd r) = calibration_data fp"
    and "lstm_classifier_loaded (snd r) = lstm_classifier_loaded fp"
proof -
  from assms(1) obtain lms m cal ce cm where h: "face_results obs = Some lms"
    "calculate_facial_metrics lms (frame_shape obs) (calibration_data fp) = Inr m"
    "\<not> (lstm_classifier_loaded fp \<and> lstm_prediction obs = Some 1)"
    "calibration_data fp = Some cal" "cal_ear_mean cal = Some ce" "cal_mar_mean cal = Some cm"
    and b: "ear_below fp (ear m) ce"
    by (rule eyes_closed_obsE)
  note cf = calibrated_frame [OF h, folded r_def]
  show "returned (fst r)" by (rule cf(1))
  show "closed_eyes_frames (snd r) = closed_eyes_frames fp + 1" using cf(2) b by simp
  show "emits ''Despierta'' (fst r) \<longleftrightarrow>
           closed_eyes_frames fp + 1 > max_alert_frames fp
           \<and> obs_now obs - last_despierta_alert_time fp > 5"
    using cf(4) b by simp
  show "\<not> emits ''Despierta'' (fst r) \<Longrightarrow>
           last_despierta_alert_time (snd r) = last_despierta_alert_time fp"
    using cf(5) by simp
  show "thresholds (snd r) = thresholds fp" by (rule cf(6))
  show "calibration_data (snd r) = calibration_data fp" by (rule cf(7))
  show "lstm_classifier_loaded (snd r) = lstm_classifier_loaded fp" by (rule cf(8))
qed

lemma eyes_closed_obs_cong_fun:
  "thresholds fp' = thresholds fp \<Longrightarrow> calibration_data fp' = calibration_data fp \<Longrightarrow>
   lstm_classifier_loaded fp' = lstm_classifier_loaded fp \<Longrightarrow>
   eyes_closed_obs fp' = eyes_closed_obs fp"
  by (rule ext) (rule eyes_closed_obs_cong)

lemma max_alert_frames_cong:
  "thresholds fp' = thresholds fp \<Longrightarrow> max_alert_frames fp' = max_alert_frames fp"
  by (simp add: max_alert_frames_def)

lemma closed_run_below:
  assumes "list_all (eyes_closed_obs fp) obss"
    and "closed_eyes_frames fp + int (length obss) \<le> max_alert_frames fp"
  shows "map (emits ''Despierta'') (fst (fatigue_run obss fp)) = replicate (length obss) False
     \<and> list_all returned (fst (fatigue_run obss fp))
     \<and> closed_eyes_frames (snd (fatigue_run obss fp)) = closed_eyes_frames fp + int (length obss)
     \<and> last_despierta_alert_time (snd (fatigue_run obss fp)) = last_despierta_alert_time fp
     \<and> thresholds (snd (fatigue_run obss fp)) = thresholds fp
     \<and> calibration_data (snd (fatigue_run obss fp)) = calibration_data fp
     \<and> lstm_classifier_loaded (snd (fatigue_run obss fp)) = lstm_classifier_loaded fp"
  using assms
proof (induction obss arbitrary: fp)
  case Nil
  then show ?case by simp
next
  case (Cons obs obss)
  let ?r = "process_frame_for_inference obs fp"
  have o: "eyes_closed_obs fp obs" using Cons.prems(1) by simp
  note st = closed_frame_step [OF o]
  have nd: "\<not> emits ''Despierta'' (fst ?r)"
    using st(3) Cons.prems(2) by simp
  have rest: "list_all (eyes_closed_obs (snd ?r)) obss"
    using Cons.prems(1) by (simp add: eyes_closed_obs_cong_fun [OF st(5) st(6) st(7)])
  have bound: "closed_eyes_frames (snd ?r) + int (length obss) \<le> max_alert_frames (snd ?r)"
    using Cons.prems(2) st(2) max_alert_frames_cong [OF st(5)] by simp
  note IH = Cons.IH [OF rest bound]
  show ?case
    using IH nd st(1) st(2) st(4) [OF nd] st(5) st(6) st(7)
    by (simp add: split_beta Let_def)
qed

lemma fatigue_run_append:
  "fatigue_run (xs @ ys) fp =
     (fst (fatigue_run xs fp) @ fst (fatigue_run ys (snd (fatigue_run xs fp))),
      snd (fatigue_run ys (snd (fatigue_run xs fp))))"
  by (induction xs arbitrary: fp) (simp_all add: split_beta Let_def)

lemma despierta_once:
  assumes rs: "fp = reset_state t0 fp1"
    and nn: "0 \<le> max_alert_frames fp"
    and len: "length obss = nat (max_alert_frames fp) + 1"
    and cl: "list_all (eyes_closed_obs fp) obss"
    and tm: "obs_now (last obss) > 5"
  shows "list_all returned (fst (fatigue_run obss fp))"
    and "map (emits ''Despierta'') (fst (fatigue_run obss fp))
           = replicate (nat (max_alert_frames fp)) False @ [True]"
proof -
  from len obtain pre lst where sp: "obss = pre @ [lst]"
    by (cases obss rule: rev_cases) auto
  have lp: "length pre = nat (max_alert_frames fp)" using len sp by simp
  have c0: "closed_eyes_frames fp = 0" and d0: "last_despierta_alert_time fp = 0"
    by (simp_all add: rs reset_state_def)
  have clp: "list_all (eyes_closed_obs fp) pre" and cll: "eyes_closed_obs fp lst"
    using cl sp by simp_all
  have bnd: "closed_eyes_frames fp + int (length pre) \<le> max_alert_frames fp"
    using c0 lp nn by simp
  note pr = closed_run_below [OF clp bnd]
  let ?fp = "snd (fatigue_run pre fp)"
  have cll': "eyes_closed_obs ?fp lst"
    using cll eyes_closed_obs_cong [of ?fp fp lst] pr by simp
  note st = closed_frame_step [OF cll']
  have cnt: "closed_eyes_frames ?fp = max_alert_frames fp"
    using pr c0 lp nn by simp
  have fire: "emits ''Despierta'' (fst (process_frame_for_inference lst ?fp))"
    using st(3) cnt pr d0 tm sp max_alert_frames_cong [of ?fp fp] by simp
  show "list_all returned (fst (fatigue_run obss fp))"
    using pr st(1) by (simp add: sp fatigue_run_append split_beta Let_def)
  show "map (emits ''Despierta'') (fst (fatigue_run obss fp))
           = replicate (nat (max_alert_frames fp)) False @ [True]"
    using pr fire lp by (simp add: sp fatigue_run_append split_beta Let_def)
qed

lemma example_metrics:
  "calculate_facial_metrics (replicate 478 (1 / 2, 1 / 2)) (720, 1280) c =
     Inr \<lparr>ear = 0, mar = NaN, puc = 0, moe = compute_moe 0 NaN c,
          landmarks_np = replicate 478 (640, 360)\<rparr>"
  by (simp add: calculate_facial_metrics_def np_take_def eye_aspect_ratio_def distance_def
      np_divide_def compute_puc_def calculate_circularity_def Let_def)

lemmas example_defs =
  example_frame_def example_processor_def example_calibration_def set_calibration_def
  reset_state_def fatigue_processor_init_def no_thresholds_def

lemmas step_defs =
  process_frame_for_inference_def calibrated_steps_def yawn_step_def eyes_closed_step_def
  nod_step_def eye_rub_step_def dict_get_def npfloat_gt_def pausa_update_def
  pausa_reset_def pausa_init_def nod_update_def nod_reset_def default_nod_config_def
  Let_def split_beta

text \<open>
  C7 (amended).  On a frame on which a face is detected, the facial metrics can be
  computed (no IndexError), the calibration is set and has both means
  (cal\_ear\_mean and cal\_mar\_mean), and the LSTM classifier is absent or does not
  predict 1: the call returns; the eyes-closed counter is incremented when the EAR is
  below the calibrated threshold and reset to 0 otherwise; "Somnolencia" is emitted
  exactly when the EAR is below the threshold and the incremented counter exceeds the
  lower threshold without exceeding the higher one (no cooldown); "Despierta" is
  emitted exactly when the EAR is below the threshold, the counter exceeds the higher
  threshold and more than 5 s have passed since the last "Despierta".  Nothing is said
  here about a frame on which the classifier predicts 1.
\<close>

theorem eyes_closed_escalation:
  "face_results obs = Some lms
   \<and> calculate_facial_metrics lms (frame_shape obs) (calibration_data fp) = Inr m
   \<and> \<not> (lstm_classifier_loaded fp \<and> lstm_prediction obs = Some 1)
   \<and> calibration_data fp = Some cal
   \<and> cal_ear_mean cal = Some ce \<and> cal_mar_mean cal = Some cm \<longrightarrow>
     returned (fst (process_frame_for_inference obs fp))
     \<and> closed_eyes_frames (snd (process_frame_for_inference obs fp))
         = (if ear_below fp (ear m) ce then closed_eyes_frames fp + 1 else 0)
     \<and> (emits ''Somnolencia'' (fst (process_frame_for_inference obs fp)) \<longleftrightarrow>
          ear_below fp (ear m) ce
          \<and> drowsiness_frames fp < closed_eyes_frames fp + 1
          \<and> closed_eyes_frames fp + 1 \<le> max_alert_frames fp)
     \<and> (emits ''Despierta'' (fst (process_frame_for_inference obs fp)) \<longleftrightarrow>
          ear_below fp (ear m) ce
          \<and> max_alert_frames fp < closed_eyes_frames fp + 1
          \<and> obs_now obs - last_despierta_alert_time fp > 5)"
proof (intro impI)
  assume h: "face_results obs = Some lms
   \<and> calculate_facial_metrics lms (frame_shape obs) (calibration_data fp) = Inr m
   \<and> \<not> (lstm_classifier_loaded fp \<and> lstm_prediction obs = Some 1)
   \<and> calibration_data fp = Some cal
   \<and> cal_ear_mean cal = Some ce \<and> cal_mar_mean cal = Some cm"
  then have f: "face_results obs = Some lms"
    and m: "calculate_facial_metrics lms (frame_shape obs) (calibration_data fp) = Inr m"
    and l: "\<not> (lstm_classifier_loaded fp \<and> lstm_prediction obs = Some 1)"
    and c: "calibration_data fp = Some cal" "cal_ear_mean cal = Some ce"
      "cal_mar_mean cal = Some cm"
    by blast+
  note cf = calibrated_frame [OF f m l c]
  show "returned (fst (process_frame_for_inference obs fp))
     \<and> closed_eyes_frames (snd (process_frame_for_inference obs fp))
         = (if ear_below fp (ear m) ce then closed_eyes_frames fp + 1 else 0)
     \<and> (emits ''Somnolencia'' (fst (process_frame_for_inference obs fp)) \<longleftrightarrow>
          ear_below fp (ear m) ce
          \<and> drowsiness_frames fp < closed_eyes_frames fp + 1
          \<and> closed_eyes_frames fp + 1 \<le> max_alert_frames fp)
     \<and> (emits ''Despierta'' (fst (process_frame_for_inference obs fp)) \<longleftrightarrow>
          ear_below fp (ear m) ce
          \<and> max_alert_frames fp < closed_eyes_frames fp + 1
          \<and> obs_now obs - last_despierta_alert_time fp > 5)"
    using cf(1) cf(2) cf(3) cf(4) by auto
qed

theorem eyes_closed_escalation_witness:
  "face_results (example_frame 1001) = Some (replicate 478 (1 / 2, 1 / 2))
   \<and> calculate_facial_metrics (replicate 478 (1 / 2, 1 / 2)) (frame_shape (example_frame 1001))
        (calibration_data ((example_processor no_thresholds)\<lparr>closed_eyes_frames := 20\<rparr>))
      = Inr \<lparr>ear = 0, mar = NaN, puc = 0, moe = NaN, landmarks_np = replicate 478 (640, 360)\<rparr>
   \<and> \<not> (lstm_classifier_loaded ((example_processor no_thresholds)\<lparr>closed_eyes_frames := 20\<rparr>)
          \<and> lstm_prediction (example_frame 1001) = Some 1)
   \<and> calibration_data ((example_processor no_thresholds)\<lparr>closed_eyes_frames := 20\<rparr>)
        = Some example_calibration
   \<and> cal_ear_mean example_calibration = Some (3 / 10)
   \<and> cal_mar_mean example_calibration = Some (5 / 10)
   \<and> closed_eyes_frames (snd (process_frame_for_inference (example_frame 1001)
        ((example_processor no_thresholds)\<lparr>closed_eyes_frames := 20\<rparr>))) = 21
   \<and> emits ''Somnolencia'' (fst (process_frame_for_inference (example_frame 1001)
        ((example_processor no_thresholds)\<lparr>closed_eyes_frames := 20\<rparr>)))
   \<and> \<not> emits ''Despierta'' (fst (process_frame_for_inference (example_frame 1001)
        ((example_processor no_thresholds)\<lparr>closed_eyes_frames := 20\<rparr>)))"
  using eyes_closed_escalation
    [of "example_frame 1001" "replicate 478 (1 / 2, 1 / 2)"
        "(example_processor no_thresholds)\<lparr>closed_eyes_frames := 20\<rparr>"
        "\<lparr>ear = 0, mar = NaN, puc = 0, moe = NaN, landmarks_np = replicate 478 (640, 360)\<rparr>"
        example_calibration "3 / 10" "5 / 10"]
  by (simp add: example_metrics example_defs compute_moe_def npfloat_div_def ear_below_def
      drowsiness_frames_def max_alert_frames_def dict_get_def)

text \<open>
  With the default thresholds (20 and 60) and the counter at 60, one more eyes-closed
  frame brings the counter to 61, above the lower threshold, and "Somnolencia" is not
  emitted: the returned list is ["Despierta"].
\<close>

theorem somnolencia_counterexample:
  "closed_eyes_frames (snd (process_frame_for_inference (example_frame 1001)
        ((example_processor no_thresholds)\<lparr>closed_eyes_frames := 60\<rparr>))) = 61
   \<and> drowsiness_frames ((example_processor no_thresholds)\<lparr>closed_eyes_frames := 60\<rparr>) = 20
   \<and> \<not> emits ''Somnolencia'' (fst (process_frame_for_inference (example_frame 1001)
        ((example_processor no_thresholds)\<lparr>closed_eyes_frames := 60\<rparr>)))
   \<and> fst (process_frame_for_inference (example_frame 1001)
        ((example_processor no_thresholds)\<lparr>closed_eyes_frames := 60\<rparr>)) = Inr [''Despierta'']"
  by (simp add: example_metrics example_defs step_defs drowsiness_frames_def emits_def)

text \<open>
  With the LSTM classifier absent or not predicting 1: starting from a reset state with
  the calibration set, MAX + 1 consecutive eyes-closed frames
  (MAX = MAX\_ALERT\_EYES\_CLOSED\_FRAMES, at least 0) all return, and "Despierta" is
  emitted on exactly one of them, the last (its clock reading being more than 5 s after
  time 0, the reset value of the last-alert time).
\<close>

lemma despierta_once_lstm_silent:
  "fp = reset_state t0 fp1
   \<and> 0 \<le> max_alert_frames fp
   \<and> length obss = nat (max_alert_frames fp) + 1
   \<and> list_all (eyes_closed_obs fp) obss
   \<and> obs_now (last obss) > 5 \<longrightarrow>
     list_all returned (fst (fatigue_run obss fp))
     \<and> map (emits ''Despierta'') (fst (fatigue_run obss fp))
         = replicate (nat (max_alert_frames fp)) False @ [True]
     \<and> length (filter (emits ''Despierta'') (fst (fatigue_run obss fp))) = 1"
proof (intro impI)
  assume h: "fp = reset_state t0 fp1
   \<and> 0 \<le> max_alert_frames fp
   \<and> length obss = nat (max_alert_frames fp) + 1
   \<and> list_all (eyes_closed_obs fp) obss
   \<and> obs_now (last obss) > 5"
  then have rs: "fp = reset_state t0 fp1" and nn: "0 \<le> max_alert_frames fp"
    and len: "length obss = nat (max_alert_frames fp) + 1"
    and cl: "list_all (eyes_closed_obs fp) obss" and tm: "obs_now (last obss) > 5"
    by blast+
  note d = despierta_once [OF rs nn len cl tm]
  have "length (filter (emits ''Despierta'') (fst (fatigue_run obss fp)))
      = length (filter (\<lambda>b. b) (map (emits ''Despierta'') (fst (fatigue_run obss fp))))"
    by (simp add: filter_map comp_def)
  also have "\<dots> = 1" by (simp add: d(2))
  finally show "list_all returned (fst (fatigue_run obss fp))
     \<and> map (emits ''Despierta'') (fst (fatigue_run obss fp))
         = replicate (nat (max_alert_frames fp)) False @ [True]
     \<and> length (filter (emits ''Despierta'') (fst (fatigue_run obss fp))) = 1"
    using d by simp
qed

lemma example_closed:
  "eyes_closed_obs (reset_state 1000 (example_processor two_frame_thresholds)) (example_frame t)"
  by (simp add: eyes_closed_obs_def example_metrics example_defs two_frame_thresholds_def
      ear_below_def dict_get_def)

lemma despierta_once_lstm_silent_example:
  "0 \<le> max_alert_frames (reset_state 1000 (example_processor two_frame_thresholds))
   \<and> length [example_frame 1001, example_frame 1002]
       = nat (max_alert_frames (reset_state 1000 (example_processor two_frame_thresholds))) + 1
   \<and> eyes_closed_obs (reset_state 1000 (example_processor two_frame_thresholds))
        (example_frame 1001)
   \<and> eyes_closed_obs (reset_state 1000 (example_processor two_frame_thresholds))
        (example_frame 1002)
   \<and> obs_now (last [example_frame 1001, example_frame 1002]) > 5
   \<and> map (emits ''Despierta'')
        (fst (fatigue_run [example_frame 1001, example_frame 1002]
               (reset_state 1000 (example_processor two_frame_thresholds))))
       = [False, True]
   \<and> length (filter (emits ''Despierta'')
        (fst (fatigue_run [example_frame 1001, example_frame 1002]
               (reset_state 1000 (example_processor two_frame_thresholds))))) = 1"
proof -
  have m: "max_alert_frames (reset_state 1000 (example_processor two_frame_thresholds)) = 1"
    by (simp add: max_alert_frames_def example_defs two_frame_thresholds_def dict_get_def)
  have t: "obs_now (last [example_frame 1001, example_frame 1002]) > 5"
    by (simp add: example_frame_def)
  show ?thesis
    using despierta_once_lstm_silent
      [of "reset_state 1000 (example_processor two_frame_thresholds)" 1000
          "example_processor two_frame_thresholds"
          "[example_frame 1001, example_frame 1002]"]
      example_closed [of 1001] example_closed [of 1002] t
    by (simp add: m)
qed

lemma lstm_prediction_raises:
  assumes "face_results obs = Some lms"
    and "calculate_facial_metrics lms (frame_shape obs) (calibration_data fp) = Inr m"
    and "lstm_classifier_loaded fp" and "lstm_prediction obs = Some 1"
  shows "fst (process_frame_for_inference obs fp) = Inl UnboundLocalError"
  using assms by (simp add: process_frame_for_inference_def Let_def)

lemma lstm_frame_ear_below: "ear_below_obs example_lstm_processor (lstm_frame t p)"
  by (simp add: ear_below_obs_def lstm_frame_def example_lstm_processor_def example_metrics
      example_defs ear_below_def dict_get_def)

lemma lstm_frame_closed:
  "p \<noteq> Some 1 \<Longrightarrow> eyes_closed_obs example_lstm_processor (lstm_frame t p)"
  by (simp add: eyes_closed_obs_def lstm_frame_def example_lstm_processor_def example_metrics
      example_defs ear_below_def dict_get_def)

text \<open>
  C6.  With the calibration set, the state fresh from reset, the default threshold
  MAX\_ALERT\_EYES\_CLOSED\_FRAMES = 60 and a detected face with the EAR below the
  calibrated threshold on each of 61 consecutive frames, no call emits "Despierta" when
  the loaded LSTM classifier predicts 1 on the 61st frame: that call raises
  UnboundLocalError before the eyes-closed block is reached.
\<close>

theorem despierta_lost_to_lstm:
  "length lstm_failing_frames = 61
   \<and> max_alert_frames example_lstm_processor = 60
   \<and> closed_eyes_frames example_lstm_processor = 0
   \<and> last_despierta_alert_time example_lstm_processor = 0
   \<and> lstm_classifier_loaded example_lstm_processor
   \<and> list_all (ear_below_obs example_lstm_processor) lstm_failing_frames
   \<and> filter (emits ''Despierta'') (fst (fatigue_run lstm_failing_frames example_lstm_processor))
       = []
   \<and> last (fst (fatigue_run lstm_failing_frames example_lstm_processor))
       = Inl UnboundLocalError"
proof -
  define pre where "pre = map (\<lambda>i. lstm_frame (1000 + real i) None) [1..<20]
     @ map (\<lambda>i. lstm_frame (1000 + real i) (Some 0)) [20..<61]"
  define fp where "fp = example_lstm_processor"
  have fr: "lstm_failing_frames = pre @ [lstm_frame 1061 (Some 1)]"
    by (simp add: lstm_failing_frames_def pre_def)
  have lp: "length pre = 60" by (simp add: pre_def)
  have mx: "max_alert_frames fp = 60"
    by (simp add: fp_def max_alert_frames_def example_lstm_processor_def example_defs
        dict_get_def)
  have c0: "closed_eyes_frames fp = 0" and d0: "last_despierta_alert_time fp = 0"
    and ld: "lstm_classifier_loaded fp"
    and cd: "calibration_data fp = Some example_calibration"
    by (simp_all add: fp_def example_lstm_processor_def example_defs)
  have clp: "list_all (eyes_closed_obs fp) pre"
    by (simp add: pre_def fp_def list_all_iff lstm_frame_closed)
  have bnd: "closed_eyes_frames fp + int (length pre) \<le> max_alert_frames fp"
    by (simp add: c0 lp mx)
  note run = closed_run_below [OF clp bnd]
  let ?fp = "snd (fatigue_run pre fp)"
  have raise: "fst (process_frame_for_inference (lstm_frame 1061 (Some 1)) ?fp)
      = Inl UnboundLocalError"
  proof (rule lstm_prediction_raises)
    show "face_results (lstm_frame 1061 (Some 1)) = Some (replicate 478 (1 / 2, 1 / 2))"
      by (simp add: lstm_frame_def example_frame_def)
    show "calculate_facial_metrics (replicate 478 (1 / 2, 1 / 2))
        (frame_shape (lstm_frame 1061 (Some 1))) (calibration_data ?fp)
      = Inr \<lparr>ear = 0, mar = NaN, puc = 0, moe = compute_moe 0 NaN (calibration_data ?fp),
             landmarks_np = replicate 478 (640, 360)\<rparr>"
      by (simp add: lstm_frame_def example_frame_def example_metrics)
    show "lstm_classifier_loaded ?fp" using run ld by simp
    show "lstm_prediction (lstm_frame 1061 (Some 1)) = Some 1"
      by (simp add: lstm_frame_def)
  qed
  have all: "list_all (ear_below_obs fp) lstm_failing_frames"
    by (simp add: lstm_failing_frames_def fp_def list_all_iff lstm_frame_ear_below)
  have "set (map (emits ''Despierta'') (fst (fatigue_run pre fp))) \<subseteq> {False}"
    using run by (auto simp del: replicate_eq_replicate)
  then have pre_none: "\<forall>r \<in> set (fst (fatigue_run pre fp)). \<not> emits ''Despierta'' r"
    by auto
  have m: "filter (emits ''Despierta'') (fst (fatigue_run lstm_failing_frames fp)) = []"
    using pre_none raise
    by (simp add: fr fatigue_run_append split_beta Let_def emits_def filter_empty_conv)
  have l: "last (fst (fatigue_run lstm_failing_frames fp)) = Inl UnboundLocalError"
    using raise by (simp add: fr fatigue_run_append split_beta Let_def)
  have len: "length lstm_failing_frames = 61"
    by (simp add: lstm_failing_frames_def)
  show ?thesis
    using len mx c0 d0 ld all m l by (simp add: fp_def)
qed

text \<open>
  C10.  A detected face, no calibration, and the loaded LSTM classifier predicting 1:
  the call does not return the list ["AWAITING\_CALIBRATION"], it raises
  UnboundLocalError.
\<close>

theorem awaiting_calibration_lstm_raises:
  "fst (process_frame_for_inference ((example_frame 1001)\<lparr>lstm_prediction := Some 1\<rparr>)
         (fatigue_processor_init no_thresholds default_nod_config 3600 180 True 1000))
     = Inl UnboundLocalError
   \<and> calibration_data (fatigue_processor_init no_thresholds default_nod_config 3600 180 True 1000)
       = None
   \<and> face_results ((example_frame 1001)\<lparr>lstm_prediction := Some 1\<rparr>)
       = Some (replicate 478 (1 / 2, 1 / 2))"
  by (simp add: example_metrics example_defs process_frame_for_inference_def Let_def)

text \<open>
  When the classifier is absent or does not predict 1, the uncalibrated call returns
  exactly ["AWAITING\_CALIBRATION"], after the pause handler has been updated.
\<close>

lemma awaiting_calibration_returned:
  assumes "face_results obs = Some lms"
    and "calculate_facial_metrics lms (frame_shape obs) None = Inr m"
    and "\<not> (lstm_classifier_loaded fp \<and> lstm_prediction obs = Some 1)"
    and "calibration_data fp = None"
  shows "fst (process_frame_for_inference obs fp) = Inr [''AWAITING_CALIBRATION'']"
    and "pausa_handler (snd (process_frame_for_inference obs fp))
           = snd (pausa_update (obs_now obs) True (pose_landmarks_present obs) (pausa_handler fp))"
  using assms by (simp_all add: process_frame_for_inference_def Let_def)

text \<open>
  C9.  With the two lip landmarks coinciding, the EAR and PUC guards yield 0, but the
  MAR quotient is an unguarded division by zero: MAR is inf, and so is MOE.
\<close>

theorem mar_division_unguarded:
  "(case calculate_facial_metrics mouth_closed_landmarks (720, 1280) None of
      Inl e \<Rightarrow> None | Inr m \<Rightarrow> Some (ear m, mar m, puc m, moe m))
     = Some (0, PosInf, 0, PosInf)"
  by (simp add: mouth_closed_landmarks_def calculate_facial_metrics_def np_take_def
      eye_aspect_ratio_def distance_def np_divide_def compute_puc_def
      calculate_circularity_def compute_moe_def Let_def nth_list_update)

subsection \<open>Session state machine\<close>

lemma process_frames_append:
  "process_frames c (fs @ gs) w =
     process_frames c fs w @ process_frames c gs (final_window w (process_frames c fs w))"
  by (induction fs arbitrary: w) (simp_all add: final_window_def Let_def)

lemma listening_step_below:
  assumes "app_state w = LISTENING" "stable_face_frames_to_identify (config w) = Some N"
    and "acceptable_frame (config w) f" "stable_face_counter w + 1 < N"
  shows "process_frame c f w = (None, w\<lparr>stable_face_counter := stable_face_counter w + 1\<rparr>)"
  using assms
  by (simp add: process_frame_def handle_listening_state_def acceptable_frame_def Let_def)

lemma listening_step_reach:
  assumes "app_state w = LISTENING" "stable_face_frames_to_identify (config w) = Some N"
    and "acceptable_frame (config w) f" "stable_face_counter w + 1 \<ge> N"
  shows "process_frame c f w = (None, w\<lparr>stable_face_counter := 0, app_state := IDENTIFYING\<rparr>)"
  using assms
  by (simp add: process_frame_def handle_listening_state_def acceptable_frame_def Let_def)

lemma listening_step_reject:
  assumes "app_state w = LISTENING" "\<not> acceptable_frame (config w) f"
  shows "process_frame c f w = (None, w\<lparr>stable_face_counter := 0\<rparr>)"
  using assms
  by (auto simp: process_frame_def handle_listening_state_def acceptable_frame_def Let_def)

lemma listening_run_below:
  assumes "app_state w = LISTENING" "stable_face_frames_to_identify (config w) = Some N"
    and "list_all (acceptable_frame (config w)) fs"
    and "stable_face_counter w + int (length fs) < N"
  shows "list_all stays_listening (process_frames c fs w)
     \<and> final_window w (process_frames c fs w)
         = w\<lparr>stable_face_counter := stable_face_counter w + int (length fs)\<rparr>"
  using assms
proof (induction fs arbitrary: w)
  case Nil
  then show ?case by (simp add: final_window_def)
next
  case (Cons f fs)
  define w1 where "w1 = w\<lparr>stable_face_counter := stable_face_counter w + 1\<rparr>"
  have af: "acceptable_frame (config w) f" using Cons.prems(3) by simp
  have lt: "stable_face_counter w + 1 < N" using Cons.prems(4) by simp
  have st: "process_frame c f w = (None, w1)"
    unfolding w1_def by (rule listening_step_below [OF Cons.prems(1) Cons.prems(2) af lt])
  have p1: "app_state w1 = LISTENING" using Cons.prems(1) by (simp add: w1_def)
  have p2: "stable_face_frames_to_identify (config w1) = Some N"
    using Cons.prems(2) by (simp add: w1_def)
  have p3: "list_all (acceptable_frame (config w1)) fs"
    using Cons.prems(3) by (simp add: w1_def)
  have p4: "stable_face_counter w1 + int (length fs) < N"
    using Cons.prems(4) by (simp add: w1_def)
  note IH = Cons.IH [OF p1 p2 p3 p4]
  have fin: "final_window w (process_frames c (f # fs) w)
      = final_window w1 (process_frames c fs w1)"
    by (simp add: st Let_def final_window_def)
  have s1: "stays_listening (None, w1)" using p1 by (simp add: stays_listening_def)
  have "list_all stays_listening (process_frames c (f # fs) w)"
    using IH s1 by (simp add: st Let_def)
  moreover have "final_window w1 (process_frames c fs w1)
      = w\<lparr>stable_face_counter := stable_face_counter w + int (length (f # fs))\<rparr>"
    using IH by (simp add: w1_def add.assoc)
  ultimately show ?case using fin by (simp only:)
qed

lemma final_window_snoc: "final_window w (rs @ [r]) = snd r"
  by (simp add: final_window_def)

lemma process_frames_length: "length (process_frames c fs w) = length fs"
  by (induction fs arbitrary: w) (simp_all add: Let_def)

lemma stays_listening_states:
  "list_all stays_listening rs \<Longrightarrow>
   map (\<lambda>r. app_state (snd r)) rs = replicate (length rs) LISTENING"
  by (induction rs) (simp_all add: stays_listening_def)

lemma stays_listening_no_error:
  "list_all stays_listening rs \<Longrightarrow> list_all (\<lambda>r. fst r = None) rs"
  by (induction rs) (simp_all add: stays_listening_def)

lemma listening_resets:
  assumes l: "app_state w = LISTENING" and z: "stable_face_counter w = 0"
    and n: "stable_face_frames_to_identify (config w) = Some N" and n1: "1 \<le> N"
    and g: "list_all (acceptable_frame (config w)) goods"
    and len: "length goods = nat (N - 1)" and b: "\<not> acceptable_frame (config w) bad"
  shows "list_all stays_listening (process_frames c (goods @ [bad]) w)"
    and "stable_face_counter (final_window w (process_frames c (goods @ [bad]) w)) = 0"
proof -
  define w1 where "w1 = w\<lparr>stable_face_counter := stable_face_counter w + int (length goods)\<rparr>"
  have bound: "stable_face_counter w + int (length goods) < N" using z len n1 by simp
  note run = listening_run_below [OF l n g bound, of c, folded w1_def]
  have fw: "final_window w (process_frames c goods w) = w1" using run by simp
  have l1: "app_state w1 = LISTENING" using l by (simp add: w1_def)
  have b1: "\<not> acceptable_frame (config w1) bad" using b by (simp add: w1_def)
  have st: "process_frame c bad w1 = (None, w1\<lparr>stable_face_counter := 0\<rparr>)"
    by (rule listening_step_reject [OF l1 b1])
  have s1: "stays_listening (None, w1\<lparr>stable_face_counter := 0\<rparr>)"
    using l1 by (simp add: stays_listening_def)
  show "list_all stays_listening (process_frames c (goods @ [bad]) w)"
    using run s1 by (simp add: process_frames_append fw st Let_def)
  show "stable_face_counter (final_window w (process_frames c (goods @ [bad]) w)) = 0"
    by (simp add: process_frames_append fw st Let_def final_window_snoc)
qed

lemma listening_reaches_identifying:
  assumes l: "app_state w = LISTENING" and z: "stable_face_counter w = 0"
    and n: "stable_face_frames_to_identify (config w) = Some N" and n1: "1 \<le> N"
    and g: "list_all (acceptable_frame (config w)) goods"
    and len: "length goods = nat N"
  shows "map (\<lambda>r. app_state (snd r)) (process_frames c goods w)
           = replicate (nat (N - 1)) LISTENING @ [IDENTIFYING]"
    and "list_all (\<lambda>r. fst r = None) (process_frames c goods w)"
    and "stable_face_counter (final_window w (process_frames c goods w)) = 0"
proof -
  from len n1 obtain pre lst where sp: "goods = pre @ [lst]"
    by (cases goods rule: rev_cases) auto
  have lp: "length pre = nat (N - 1)" using len sp n1 by simp
  have gp: "list_all (acceptable_frame (config w)) pre" and gl: "acceptable_frame (config w) lst"
    using g sp by simp_all
  define w1 where "w1 = w\<lparr>stable_face_counter := stable_face_counter w + int (length pre)\<rparr>"
  have bound: "stable_face_counter w + int (length pre) < N" using z lp n1 by simp
  note run = listening_run_below [OF l n gp bound, of c, folded w1_def]
  have fw: "final_window w (process_frames c pre w) = w1" using run by simp
  have l1: "app_state w1 = LISTENING" using l by (simp add: w1_def)
  have n': "stable_face_frames_to_identify (config w1) = Some N" using n by (simp add: w1_def)
  have g1: "acceptable_frame (config w1) lst" using gl by (simp add: w1_def)
  have ge: "stable_face_counter w1 + 1 \<ge> N" using z lp n1 by (simp add: w1_def)
  have st: "process_frame c lst w1
      = (None, w1\<lparr>stable_face_counter := 0, app_state := IDENTIFYING\<rparr>)"
    by (rule listening_step_reach [OF l1 n' g1 ge])
  have allL: "map (\<lambda>r. app_state (snd r)) (process_frames c pre w)
      = replicate (nat (N - 1)) LISTENING"
    using stays_listening_states [of "process_frames c pre w"] run
    by (simp add: process_frames_length lp)
  show "map (\<lambda>r. app_state (snd r)) (process_frames c goods w)
           = replicate (nat (N - 1)) LISTENING @ [IDENTIFYING]"
    by (simp add: sp process_frames_append fw st Let_def allL)
  show "list_all (\<lambda>r. fst r = None) (process_frames c goods w)"
    using run stays_listening_no_error [of "process_frames c pre w"]
    by (simp add: sp process_frames_append fw st Let_def)
  show "stable_face_counter (final_window w (process_frames c goods w)) = 0"
    by (simp add: sp process_frames_append fw st Let_def final_window_snoc)
qed


text \<open>
  C5.  From LISTENING with the stable-face counter at 0 and the threshold
  N = stable\_face\_frames\_to\_identify (at least 1): N - 1 consecutive frames with a
  detected face and acceptable pose followed by one frame without (no face, or an
  unacceptable pose) leave the machine in LISTENING after every one of these frames,
  with the counter back at 0; N consecutive acceptable frames leave it in LISTENING
  after each of the first N - 1 and in IDENTIFYING after the N-th.
\<close>

theorem listening_stable_counter:
  "app_state w = LISTENING \<and> stable_face_counter w = 0
   \<and> stable_face_frames_to_identify (config w) = Some N \<and> 1 \<le> N
   \<and> list_all (acceptable_frame (config w)) goods \<longrightarrow>
     (length goods = nat (N - 1) \<and> \<not> acceptable_frame (config w) bad \<longrightarrow>
        list_all stays_listening (process_frames c (goods @ [bad]) w)
        \<and> stable_face_counter (final_window w (process_frames c (goods @ [bad]) w)) = 0)
     \<and> (length goods = nat N \<longrightarrow>
        map (\<lambda>r. app_state (snd r)) (process_frames c goods w)
          = replicate (nat (N - 1)) LISTENING @ [IDENTIFYING]
        \<and> list_all (\<lambda>r. fst r = None) (process_frames c goods w))"
proof (intro impI conjI)
  assume h: "app_state w = LISTENING \<and> stable_face_counter w = 0
   \<and> stable_face_frames_to_identify (config w) = Some N \<and> 1 \<le> N
   \<and> list_all (acceptable_frame (config w)) goods"
  then have l: "app_state w = LISTENING" and z: "stable_face_counter w = 0"
    and n: "stable_face_frames_to_identify (config w) = Some N" and n1: "1 \<le> N"
    and g: "list_all (acceptable_frame (config w)) goods"
    by blast+
  {
    assume a: "length goods = nat (N - 1) \<and> \<not> acceptable_frame (config w) bad"
    then have len: "length goods = nat (N - 1)" and b: "\<not> acceptable_frame (config w) bad"
      by blast+
    show "list_all stays_listening (process_frames c (goods @ [bad]) w)"
      by (rule listening_resets(1) [OF l z n n1 g len b])
    show "stable_face_counter (final_window w (process_frames c (goods @ [bad]) w)) = 0"
      by (rule listening_resets(2) [OF l z n n1 g len b])
  }
  {
    assume len: "length goods = nat N"
    show "map (\<lambda>r. app_state (snd r)) (process_frames c goods w)
          = replicate (nat (N - 1)) LISTENING @ [IDENTIFYING]"
      by (rule listening_reaches_identifying(1) [OF l z n n1 g len])
    show "list_all (\<lambda>r. fst r = None) (process_frames c goods w)"
      by (rule listening_reaches_identifying(2) [OF l z n n1 g len])
  }
qed

lemmas gui_example_defs =
  example_window_def main_window_init_def example_gui_config_def steady_face_def
  turned_face_def no_face_def acceptable_frame_def pose_ok_def pose_data_of_def
  is_pose_acceptable_def dict_get_def

theorem listening_stable_counter_witness:
  "app_state example_window = LISTENING \<and> stable_face_counter example_window = 0
   \<and> stable_face_frames_to_identify (config example_window) = Some 3 \<and> (1 :: int) \<le> 3
   \<and> acceptable_frame (config example_window) (steady_face 1)
   \<and> acceptable_frame (config example_window) (steady_face 2)
   \<and> acceptable_frame (config example_window) (steady_face 3)
   \<and> length [steady_face 1, steady_face 2] = nat (3 - 1)
   \<and> \<not> acceptable_frame (config example_window) (turned_face 3)
   \<and> list_all stays_listening
        (process_frames failing_collaborators
           ([steady_face 1, steady_face 2] @ [turned_face 3]) example_window)
   \<and> stable_face_counter (final_window example_window
        (process_frames failing_collaborators
           ([steady_face 1, steady_face 2] @ [turned_face 3]) example_window)) = 0
   \<and> length [steady_face 1, steady_face 2, steady_face 3] = nat 3
   \<and> map (\<lambda>r. app_state (snd r))
        (process_frames failing_collaborators
           [steady_face 1, steady_face 2, steady_face 3] example_window)
       = [LISTENING, LISTENING, IDENTIFYING]"
proof -
  have a: "acceptable_frame (config example_window) (steady_face t)" for t
    by (simp add: gui_example_defs)
  have b: "\<not> acceptable_frame (config example_window) (turned_face 3)"
    by (simp add: gui_example_defs)
  have h: "app_state example_window = LISTENING" "stable_face_counter example_window = 0"
    "stable_face_frames_to_identify (config example_window) = Some 3"
    by (simp_all add: gui_example_defs)
  show ?thesis
    using listening_stable_counter
      [of example_window 3 "[steady_face 1, steady_face 2]" "turned_face 3"
          failing_collaborators]
      listening_stable_counter
      [of example_window 3 "[steady_face 1, steady_face 2, steady_face 3]" "turned_face 3"
          failing_collaborators]
      a b h
    by (simp add: numeral_2_eq_2)
qed

lemma monitoring_step_keeps:
  "app_state w = MONITORING \<Longrightarrow>
   app_state (snd (process_frame c f w)) = MONITORING
   \<and> current_user_id (snd (process_frame c f w)) = current_user_id w
   \<and> current_user_code (snd (process_frame c f w)) = current_user_code w
   \<and> face_lost_counter (snd (process_frame c f w)) = face_lost_counter w"
  by (simp add: process_frame_def handle_monitoring_state_def Let_def
      split: sum.splits)

lemma monitoring_run_keeps:
  "app_state w = MONITORING \<Longrightarrow> current_user_id w = u \<Longrightarrow> current_user_code w = k \<Longrightarrow>
   face_lost_counter w = n \<Longrightarrow>
   list_all (\<lambda>r. app_state (snd r) = MONITORING \<and> current_user_id (snd r) = u
                  \<and> current_user_code (snd r) = k \<and> face_lost_counter (snd r) = n)
     (process_frames c fs w)"
proof (induction fs arbitrary: w)
  case Nil
  then show ?case by simp
next
  case (Cons f fs)
  note k = monitoring_step_keeps [OF Cons.prems(1), of c f]
  have "list_all (\<lambda>r. app_state (snd r) = MONITORING \<and> current_user_id (snd r) = u
                  \<and> current_user_code (snd r) = k \<and> face_lost_counter (snd r) = n)
     (process_frames c fs (snd (process_frame c f w)))"
    using k Cons.prems by (intro Cons.IH) simp_all
  then show ?case using k Cons.prems by (simp add: Let_def)
qed

text \<open>
  C1.  In MONITORING, whatever the frames (in particular more than
  face\_lost\_frames\_to\_logout consecutive frames without a face) and whatever the two
  methods missing from FatigueProcessor would do, every call of \<open>process_frame\<close>
  leaves the machine in MONITORING with the same user bound and the face-lost counter
  unchanged: the handler never counts lost frames and never logs out.
\<close>

theorem monitoring_never_logs_out:
  "list_all (session_kept w) (process_frames c fs (w\<lparr>app_state := MONITORING\<rparr>))"
  using monitoring_run_keeps
    [of "w\<lparr>app_state := MONITORING\<rparr>" "current_user_id w" "current_user_code w"
        "face_lost_counter w" c fs]
  by (simp add: session_kept_def [abs_def])

text \<open>
  C2.  An exception raised inside a handler is not always caught at its boundary: in
  MONITORING, with FatigueProcessor as written, the AttributeError of the first method
  call leaves \<open>process_frame\<close> and the state stays MONITORING; in IDENTIFYING, with
  \<open>last_known_face_results\<close> unset, the AttributeError of the first test (outside the
  \<open>try\<close>) leaves \<open>process_frame\<close> and the state stays IDENTIFYING.
\<close>

theorem handler_exception_propagates:
  "process_frame (methods_as_written c) f (w\<lparr>app_state := MONITORING\<rparr>)
     = (Some AttributeError, w\<lparr>app_state := MONITORING\<rparr>)
   \<and> process_frame c f (w\<lparr>app_state := IDENTIFYING, last_known_face_results := None\<rparr>)
     = (Some AttributeError, w\<lparr>app_state := IDENTIFYING, last_known_face_results := None\<rparr>)"
  by (simp add: process_frame_def handle_monitoring_state_def methods_as_written_def
      handle_identifying_state_def Let_def)

text \<open>Inside the \<open>try\<close> of the identifying handler an exception does lead to LISTENING.\<close>

lemma identifying_try_block_caught:
  "last_known_face_results w = Some (Some lms) \<Longrightarrow> app_state w = IDENTIFYING \<Longrightarrow>
   identify_attempt c lms f w = (Some e, w1) \<Longrightarrow>
   process_frame c f w = (None, w1\<lparr>app_state := LISTENING\<rparr>)"
  by (simp add: process_frame_def handle_identifying_state_def)

text \<open>
  From the constructed window: three stable frames reach IDENTIFYING, and every later
  frame raises AttributeError there.
\<close>

lemma identifying_raises_after_stable_face:
  "map (\<lambda>r. (fst r, app_state (snd r)))
     (process_frames failing_collaborators
        [steady_face 1, steady_face 2, steady_face 3, steady_face 4, no_face 5]
        example_window)
   = [(None, LISTENING), (None, LISTENING), (None, IDENTIFYING),
      (Some AttributeError, IDENTIFYING), (Some AttributeError, IDENTIFYING)]"
  by (simp add: gui_example_defs process_frame_def handle_listening_state_def
      handle_identifying_state_def Let_def)

text \<open>
  A bound session with face\_lost\_frames\_to\_logout = 2 and four frames without a face:
  no logout.
\<close>

lemma monitoring_absent_frames_example:
  "map (\<lambda>r. (fst r, app_state (snd r), current_user_id (snd r), face_lost_counter (snd r)))
     (process_frames failing_collaborators [no_face 1, no_face 2, no_face 3, no_face 4]
        (example_window\<lparr>app_state := MONITORING, current_user_id := Some 7,
                         current_user_code := ''USUARIO_0007''\<rparr>))
   = [(Some AttributeError, MONITORING, Some 7, 0), (Some AttributeError, MONITORING, Some 7, 0),
      (Some AttributeError, MONITORING, Some 7, 0), (Some AttributeError, MONITORING, Some 7, 0)]"
  by (simp add: gui_example_defs process_frame_def handle_monitoring_state_def
      failing_collaborators_def Let_def)

end
